theory Spec2Isabelle
  imports Complex_Main "HOL-Library.Log_Nat"
begin

section \<open>Binary64 arithmetic\<close>

text \<open>
  The numbers of \<^verbatim>\<open>Transport\<close> are numpy \<^verbatim>\<open>float64\<close> values: binary64 numbers,
  each operation giving the exact result rounded to the nearest number with a
  significand of 53 bits, ties going to the even significand. A binary64 number is
  modelled by the real number it denotes and an operation by the exact operation
  followed by \<open>round64\<close>.

  \<open>binade x\<close> is the exponent \<open>e\<close> with \<open>2^e \<le> |x| < 2^(e+1)\<close> (lemma \<open>binade_eq\<close>),
  read off the bit length of the integer part of \<open>|x|\<close> or of \<open>1/|x|\<close>; below
  \<open>2^-1022\<close> the spacing of the subnormal numbers is used. A result of magnitude
  \<open>2^1024\<close> or more, which is \<^verbatim>\<open>inf\<close> in the code, is outside the model: transmissions
  lie between zero and the number of channels of a lead.
\<close>

definition pow2 :: "int \<Rightarrow> real" where
  "pow2 k = (if 0 \<le> k then 2 ^ nat k else 1 / 2 ^ nat (- k))"

definition binade :: "real \<Rightarrow> int" where
  "binade x =
     (if 1 \<le> \<bar>x\<bar> then bitlen \<lfloor>\<bar>x\<bar>\<rfloor> - 1 else - bitlen (\<lceil>1 / \<bar>x\<bar>\<rceil> - 1))"

definition round_half_even :: "real \<Rightarrow> int" where
  "round_half_even x =
     (let f = \<lfloor>x\<rfloor>; d = x - of_int f
      in if d < 1 / 2 then f else if 1 / 2 < d then f + 1 else if even f then f else f + 1)"

definition round64 :: "real \<Rightarrow> real" where
  "round64 x =
     (if x = 0 then 0
      else let e = max (binade x) (- 1022); ulp = pow2 (e - 52)
           in of_int (round_half_even (x / ulp)) * ulp)"

definition fadd :: "real \<Rightarrow> real \<Rightarrow> real" where
  "fadd x y = round64 (x + y)"

definition fsub :: "real \<Rightarrow> real \<Rightarrow> real" where
  "fsub x y = round64 (x - y)"

definition fmul :: "real \<Rightarrow> real \<Rightarrow> real" where
  "fmul x y = round64 (x * y)"

definition fdiv :: "real \<Rightarrow> real \<Rightarrow> real" where
  "fdiv x y = round64 (x / y)"

section \<open>Four-terminal transport: the conductance matrix and the Hall voltage\<close>

text \<open>
  The notebook \<^verbatim>\<open>3.3.MagnetoResistance-cheat.ipynb\<close> defines
  \<^verbatim>\<open>
  def Transport(Hf,EE,ps):
      smatrix = kwant.smatrix(Hf, energy=EE, args=[ps])
      G=np.zeros((4,4))
      for i in range(4):
          a=0
          for j in range(4):
              G[i,j] = smatrix.transmission(i, j)
              if i != j:
                  a += G[i,j]
          G[i,i] = -a
      V = np.linalg.solve(G[:3,:3], [1.,0,0])
      Hall = V[2] - V[1]
      return G, Hall
  \<close>
  The scattering-matrix solver \<^verbatim>\<open>kwant.smatrix\<close> belongs to an external library. It is
  a parameter \<open>kw\<close> of the model: \<open>kw Hf EE ps i j\<close> stands for
  \<^verbatim>\<open>kwant.smatrix(Hf, energy=EE, args=[ps]).transmission(i, j)\<close>, a binary64 number,
  which the assignment to \<^verbatim>\<open>G[i,j]\<close> stores as it is.
\<close>

datatype error = ZeroDivisionError | LinAlgError

type_synonym array2 = "real list list"

definition zeros :: "nat \<Rightarrow> nat \<Rightarrow> array2" where
  "zeros m n = replicate m (replicate n 0)"

text \<open>\<^verbatim>\<open>G[i,j] = v\<close>; every use below has \<open>i\<close> and \<open>j\<close> inside the array.\<close>

definition set_item :: "array2 \<Rightarrow> nat \<Rightarrow> nat \<Rightarrow> real \<Rightarrow> array2" where
  "set_item G i j v = G[i := (G ! i)[j := v]]"

text \<open>
  One pass of the inner loop body, on the pair of the array and the accumulator \<open>a\<close>;
  \<^verbatim>\<open>a += G[i,j]\<close> is a binary64 addition.
\<close>

definition Transport_inner ::
  "(nat \<Rightarrow> nat \<Rightarrow> real) \<Rightarrow> nat \<Rightarrow> nat \<Rightarrow> array2 \<times> real \<Rightarrow> array2 \<times> real" where
  "Transport_inner smatrix i j = (\<lambda>(G, a).
     let G' = set_item G i j (smatrix i j)
     in (G', if i \<noteq> j then fadd a (G' ! i ! j) else a))"

text \<open>One pass of the outer loop body: \<open>a = 0\<close>, the inner loop, then \<^verbatim>\<open>G[i,i] = -a\<close>.\<close>

definition Transport_outer :: "(nat \<Rightarrow> nat \<Rightarrow> real) \<Rightarrow> nat \<Rightarrow> array2 \<Rightarrow> array2" where
  "Transport_outer smatrix i G =
     (let (G', a) = fold (Transport_inner smatrix i) [0..<4] (G, 0)
      in set_item G' i i (- a))"

definition Transport_G :: "(nat \<Rightarrow> nat \<Rightarrow> real) \<Rightarrow> array2" where
  "Transport_G smatrix = fold (Transport_outer smatrix) [0..<4] (zeros 4 4)"

text \<open>The slice \<^verbatim>\<open>G[:3,:3]\<close>.\<close>

definition slice3 :: "array2 \<Rightarrow> array2" where
  "slice3 G = map (take 3) (take 3 G)"

text \<open>
  \<^verbatim>\<open>np.linalg.solve\<close> is numpy's, an external library like the scattering solver, and
  a parameter \<open>solve\<close> of the model. A call \<open>solve A b\<close> gives its result, an error or a
  vector, and the trace it leaves, a list over any type; \<open>Transport\<close> returns its own
  result (\<open>Inl\<close> when the solve raised) with the traces of the calls it made, in their
  order. The difference \<^verbatim>\<open>V[2] - V[1]\<close> is a binary64 subtraction.
\<close>

definition Transport ::
  "('sys \<Rightarrow> real \<Rightarrow> 'ps \<Rightarrow> nat \<Rightarrow> nat \<Rightarrow> real)
     \<Rightarrow> (array2 \<Rightarrow> real list \<Rightarrow> (error + real list) \<times> 'l list)
     \<Rightarrow> 'sys \<Rightarrow> real \<Rightarrow> 'ps \<Rightarrow> (error + array2 \<times> real) \<times> 'l list" where
  "Transport kw solve Hf EE ps =
     (let smatrix = kw Hf EE ps;
          G = Transport_G smatrix;
          (res, calls) = solve (slice3 G) [1, 0, 0]
      in case res of
           Inl e \<Rightarrow> (Inl e, calls)
         | Inr V \<Rightarrow> (Inr (G, fsub (V ! 2) (V ! 1)), calls))"

subsection \<open>The solver of numpy\<close>

text \<open>
  \<^verbatim>\<open>np.linalg.solve\<close> calls LAPACK's \<^verbatim>\<open>gesv\<close>: an LU factorisation with partial
  pivoting in binary64, then the two triangular solves; it raises \<^verbatim>\<open>LinAlgError\<close>
  when a pivot of the factorisation is exactly zero, and only then. \<open>lu_solve64\<close> is
  this algorithm. At step \<open>k\<close> the first row of largest magnitude in column \<open>k\<close>, from
  row \<open>k\<close> on, is exchanged with row \<open>k\<close>; every row \<open>i\<close> below gets the multiplier
  \<open>l = a[i][k] / a[k][k]\<close> and each of its entries to the right, and of the right-hand
  side, becomes \<open>a[i][j] - l * a[k][j]\<close>, the product rounded before the difference.
  The back substitution goes from the last row up, subtracting the products from left
  to right and dividing by the pivot. (Implementations of the routine differ in the
  order of these operations, some forming the multiplier with the reciprocal of the
  pivot; the test for a zero pivot is common to them.)
\<close>

definition swap :: "'a list \<Rightarrow> nat \<Rightarrow> nat \<Rightarrow> 'a list" where
  "swap xs i j = xs[i := xs ! j, j := xs ! i]"

definition pivot_row :: "array2 \<Rightarrow> nat \<Rightarrow> nat" where
  "pivot_row A k =
     fold (\<lambda>i p. if \<bar>A ! p ! k\<bar> < \<bar>A ! i ! k\<bar> then i else p) [Suc k..<length A] k"

definition eliminate :: "nat \<Rightarrow> array2 \<times> real list \<Rightarrow> array2 \<times> real list" where
  "eliminate k = (\<lambda>(A, b).
     (map (\<lambda>i. if i \<le> k then A ! i
              else let l = fdiv (A ! i ! k) (A ! k ! k)
                   in map (\<lambda>j. if j < k then A ! i ! j
                               else if j = k then l
                               else fsub (A ! i ! j) (fmul l (A ! k ! j)))
                        [0..<length A])
          [0..<length A],
      map (\<lambda>i. if i \<le> k then b ! i
              else fsub (b ! i) (fmul (fdiv (A ! i ! k) (A ! k ! k)) (b ! k)))
          [0..<length A]))"

fun lu_steps :: "nat list \<Rightarrow> array2 \<times> real list \<Rightarrow> error + array2 \<times> real list" where
  "lu_steps [] Ab = Inr Ab"
| "lu_steps (k # ks) (A, b) =
     (let p = pivot_row A k; A1 = swap A k p; b1 = swap b k p
      in if A1 ! k ! k = 0 then Inl LinAlgError
         else lu_steps ks (eliminate k (A1, b1)))"

fun back_subst :: "array2 \<Rightarrow> real list \<Rightarrow> nat list \<Rightarrow> real list \<Rightarrow> real list" where
  "back_subst U c [] x = x"
| "back_subst U c (i # rows) x =
     (let s = fold (\<lambda>j s. fsub s (fmul (U ! i ! j) (x ! j))) [Suc i..<length U] (c ! i)
      in back_subst U c rows (x[i := fdiv s (U ! i ! i)]))"

definition lu_solve64 :: "array2 \<Rightarrow> real list \<Rightarrow> error + real list" where
  "lu_solve64 A b =
     (case lu_steps [0..<length A] (A, b) of
        Inl e \<Rightarrow> Inl e
      | Inr (U, c) \<Rightarrow> Inr (back_subst U c (rev [0..<length A]) (replicate (length A) 0)))"

text \<open>A call of a solver \<open>f\<close> that leaves the record of its arguments as its trace.\<close>

definition traced ::
  "(array2 \<Rightarrow> real list \<Rightarrow> error + real list)
     \<Rightarrow> array2 \<Rightarrow> real list \<Rightarrow> (error + real list) \<times> (array2 \<times> real list) list" where
  "traced f A b = (f A b, [(A, b)])"

subsection \<open>Exact linear algebra\<close>

text \<open>
  The product of a matrix and a vector and the determinant of a 3x3 matrix, in exact
  arithmetic, to speak of the exact solutions of the reduced system. A 3x3 matrix is
  singular when it sends some vector other than zero to zero.
\<close>

definition matvec :: "array2 \<Rightarrow> real list \<Rightarrow> real list" where
  "matvec A x = map (\<lambda>row. sum_list (map (\<lambda>(c, v). c * v) (zip row x))) A"

definition det3 :: "array2 \<Rightarrow> real" where
  "det3 A =
     A ! 0 ! 0 * (A ! 1 ! 1 * A ! 2 ! 2 - A ! 1 ! 2 * A ! 2 ! 1)
   - A ! 0 ! 1 * (A ! 1 ! 0 * A ! 2 ! 2 - A ! 1 ! 2 * A ! 2 ! 0)
   + A ! 0 ! 2 * (A ! 1 ! 0 * A ! 2 ! 1 - A ! 1 ! 1 * A ! 2 ! 0)"

definition singular :: "array2 \<Rightarrow> bool" where
  "singular A \<longleftrightarrow>
     (\<exists>x y z. (x \<noteq> 0 \<or> y \<noteq> 0 \<or> z \<noteq> 0) \<and> matvec A [x, y, z] = [0, 0, 0])"

section \<open>Spin matrices and the on-site value functions\<close>

text \<open>
  \<^verbatim>\<open>
  s_0 = np.identity(2)
  s_z = np.array([[1, 0], [0, -1]])
  s_x = np.array([[0, 1], [1, 0]])
  s_y = np.array([[0, -1j], [1j, 0]])
  \<close>
  A 2x2 array is \<open>Mat2 a b c d\<close> for \<^verbatim>\<open>[[a, b], [c, d]]\<close>, with complex entries.
  \<open>smul\<close> is the product of a real number and an array, \<open>madd\<close> the sum of two arrays,
  \<open>dagger\<close> the conjugate transpose.
\<close>

datatype mat2 = Mat2 complex complex complex complex

definition s_0 :: mat2 where "s_0 = Mat2 1 0 0 1"
definition s_z :: mat2 where "s_z = Mat2 1 0 0 (- 1)"
definition s_x :: mat2 where "s_x = Mat2 0 1 1 0"
definition s_y :: mat2 where "s_y = Mat2 0 (- \<i>) \<i> 0"

fun smul :: "real \<Rightarrow> mat2 \<Rightarrow> mat2" where
  "smul k (Mat2 a b c d) =
     Mat2 (complex_of_real k * a) (complex_of_real k * b)
          (complex_of_real k * c) (complex_of_real k * d)"

fun madd :: "mat2 \<Rightarrow> mat2 \<Rightarrow> mat2" where
  "madd (Mat2 a b c d) (Mat2 a' b' c' d') = Mat2 (a + a') (b + b') (c + c') (d + d')"



text \<open>A lattice site, with its position \<^verbatim>\<open>site.pos\<close>.\<close>

record site =
  pos :: "real \<times> real"

subsection \<open>The spin valve\<close>

text \<open>
  \<^verbatim>\<open>
  def onsite(site, p):
      x = site.pos[0]
      if x > W and x < 2*W:
          return 4*s_0 + p.Exc*s_z
      if x > 3*W and x < 4*W:
          return 4*s_0 + p.Exc*cos(p.angle)*s_z + p.Exc*sin(p.angle)*s_x
      return 4*s_0

  W = 10
  \<close>
  The parameter object \<^verbatim>\<open>p\<close> is a namespace with the attributes \<^verbatim>\<open>Exc\<close>,
  \<^verbatim>\<open>E\<close> and \<^verbatim>\<open>angle\<close>.
\<close>

record params =
  p_Exc :: real
  p_E :: real
  p_angle :: real

definition W :: real where "W = 10"

definition onsite :: "site \<Rightarrow> params \<Rightarrow> mat2" where
  "onsite site p =
     (let x = fst (pos site)
      in if x > W \<and> x < 2 * W then madd (smul 4 s_0) (smul (p_Exc p) s_z)
         else if x > 3 * W \<and> x < 4 * W then
           madd (madd (smul 4 s_0) (smul (p_Exc p * cos (p_angle p)) s_z))
                (smul (p_Exc p * sin (p_angle p)) s_x)
         else smul 4 s_0)"

subsection \<open>The skyrmion\<close>

text \<open>
  \<^verbatim>\<open>
  def HedgeHog(site,ps):
          x,y = site.pos
          r = ( x**2 + y**2 )**0.5
          theta = (np.pi/2)*(np.tanh((ps.r0 - r)/ps.delta) + 1)
          if r != 0:
              Ex = (x/r)*np.sin(theta)*s_x + (y/r)*np.sin(theta)*s_y + np.cos(theta)*s_z
          else:
              Ex = s_z
          return 4*s_0 + ps.Ex * Ex

  def Lead_Pot(site,ps):
      return  4*s_0 +  ps.Ex * s_z
  \<close>
  The parameter object \<^verbatim>\<open>ps\<close> has the attributes \<^verbatim>\<open>L\<close>, \<^verbatim>\<open>W\<close>,
  \<^verbatim>\<open>delta\<close>, \<^verbatim>\<open>r0\<close> and \<^verbatim>\<open>Ex\<close>. A division is \<open>py_div\<close>: a zero divisor is
  the error value, so that every division by zero of \<open>HedgeHog\<close> shows in its result
  (numpy's float division warns and yields \<^verbatim>\<open>inf\<close> or \<^verbatim>\<open>nan\<close> there).
\<close>

record sky_params =
  ps_L :: real
  ps_W :: real
  ps_delta :: real
  ps_r0 :: real
  ps_Ex :: real

definition py_div :: "real \<Rightarrow> real \<Rightarrow> error + real" where
  "py_div a b = (if b = 0 then Inl ZeroDivisionError else Inr (a / b))"

definition HedgeHog :: "site \<Rightarrow> sky_params \<Rightarrow> error + mat2" where
  "HedgeHog site ps =
     (let (x, y) = pos site;
          r = sqrt (x\<^sup>2 + y\<^sup>2)
      in case py_div (ps_r0 ps - r) (ps_delta ps) of
           Inl e \<Rightarrow> Inl e
         | Inr q \<Rightarrow>
             let theta = (pi / 2) * (tanh q + 1)
             in if r \<noteq> 0 then
                  (case py_div x r of
                     Inl e \<Rightarrow> Inl e
                   | Inr xr \<Rightarrow>
                       (case py_div y r of
                          Inl e \<Rightarrow> Inl e
                        | Inr yr \<Rightarrow>
                            Inr (madd (smul 4 s_0)
                                   (smul (ps_Ex ps)
                                      (madd (madd (smul (xr * sin theta) s_x)
                                                  (smul (yr * sin theta) s_y))
                                            (smul (cos theta) s_z))))))
                else Inr (madd (smul 4 s_0) (smul (ps_Ex ps) s_z)))"

definition Lead_Pot :: "site \<Rightarrow> sky_params \<Rightarrow> mat2" where
  "Lead_Pot site ps = madd (smul 4 s_0) (smul (ps_Ex ps) s_z)"

subsection \<open>Two symmetries\<close>

text \<open>
  The product of two 2x2 matrices, to state a rotation of the spin axes, and the
  renumbering of the four leads that exchanges lead 1 and lead 2.
\<close>

fun mmul :: "mat2 \<Rightarrow> mat2 \<Rightarrow> mat2" where
  "mmul (Mat2 a b c d) (Mat2 a' b' c' d') =
     Mat2 (a * a' + b * c') (a * b' + b * d') (c * a' + d * c') (c * b' + d * d')"

definition swap12 :: "nat \<Rightarrow> nat" where
  "swap12 i = (if i = 1 then 2 else if i = 2 then 1 else i)"

section \<open>The parameter sweeps\<close>

text \<open>
  \<^verbatim>\<open>
  params = SimpleNamespace(Exc=0.2, E=2.3)
  for params.angle in angles:
      smatrix = kwant.smatrix(Hf, params.E, args=[params])
      data.append(smatrix.transmission(1, 0))
  \<close>
  The loop assigns each angle to the attribute \<^verbatim>\<open>angle\<close> of the one object
  \<^verbatim>\<open>params\<close>, which has no such attribute before the loop; in the model the field
  \<open>p_angle\<close> then holds any value. The model passes the object and the list
  \<^verbatim>\<open>data\<close> along and returns both.
\<close>

fun angle_sweep ::
  "('sys \<Rightarrow> real \<Rightarrow> params \<Rightarrow> nat \<Rightarrow> nat \<Rightarrow> real) \<Rightarrow> 'sys \<Rightarrow> params \<Rightarrow> real list \<Rightarrow> real list
     \<Rightarrow> params \<times> real list" where
  "angle_sweep kw Hf prm data [] = (prm, data)"
| "angle_sweep kw Hf prm data (a # angles) =
     (let prm' = prm\<lparr>p_angle := a\<rparr>;
          smatrix = kw Hf (p_E prm') prm'
      in angle_sweep kw Hf prm' (data @ [smatrix 1 0]) angles)"

text \<open>
  \<^verbatim>\<open>
  for EE in Es:
      ps.delta = EE
      energy = 2.
      G,Hall = Transport(Hf, energy, ps)
      dataHall.append(Hall)
  \<close>
  An exception of \<open>Transport\<close> ends the loop: the result holds the object \<^verbatim>\<open>ps\<close>, the
  values appended so far and the error, if any. The loop reads the result of
  \<open>Transport\<close> only, not the traces of its solver calls.
\<close>

fun hall_sweep ::
  "('sys \<Rightarrow> real \<Rightarrow> sky_params \<Rightarrow> nat \<Rightarrow> nat \<Rightarrow> real)
     \<Rightarrow> (array2 \<Rightarrow> real list \<Rightarrow> (error + real list) \<times> 'l list)
     \<Rightarrow> 'sys \<Rightarrow> sky_params \<Rightarrow> real list \<Rightarrow> real list
     \<Rightarrow> sky_params \<times> real list \<times> error option" where
  "hall_sweep kw solve Hf ps dataHall [] = (ps, dataHall, None)"
| "hall_sweep kw solve Hf ps dataHall (EE # Es) =
     (let ps' = ps\<lparr>ps_delta := EE\<rparr>;
          energy = 2
      in case fst (Transport kw solve Hf energy ps') of
           Inl e \<Rightarrow> (ps', dataHall, Some e)
         | Inr (G, Hall) \<Rightarrow> hall_sweep kw solve Hf ps' (dataHall @ [Hall]) Es)"

text \<open>
  The notebook \<^verbatim>\<open>2.2.scattering.ipynb\<close> sweeps the energy of a two-terminal system:
  \<^verbatim>\<open>
  def plot_transmission(syst, energies):
      trans = []
      refl = []
      for energy in energies:
          smatrix = kwant.smatrix(syst, energy)
          trans.append(smatrix.transmission(1, 0))
          refl.append(smatrix.transmission(0, 0))
      pyplot.plot(energies, trans, '.')
      pyplot.plot(energies, refl, 'o')
  \<close>
  The model returns the two lists that are plotted (\<open>transs\<close> and \<open>refls\<close> for
  \<^verbatim>\<open>trans\<close> and \<^verbatim>\<open>refl\<close>); here \<open>kw syst energy i j\<close> stands for
  \<^verbatim>\<open>kwant.smatrix(syst, energy).transmission(i, j)\<close>.
\<close>

fun plot_transmission_loop ::
  "('sys \<Rightarrow> real \<Rightarrow> nat \<Rightarrow> nat \<Rightarrow> real) \<Rightarrow> 'sys \<Rightarrow> real list \<Rightarrow> real list \<Rightarrow> real list
     \<Rightarrow> real list \<times> real list" where
  "plot_transmission_loop kw syst transs refls [] = (transs, refls)"
| "plot_transmission_loop kw syst transs refls (energy # energies) =
     (let smatrix = kw syst energy
      in plot_transmission_loop kw syst (transs @ [smatrix 1 0]) (refls @ [smatrix 0 0]) energies)"

definition plot_transmission ::
  "('sys \<Rightarrow> real \<Rightarrow> nat \<Rightarrow> nat \<Rightarrow> real) \<Rightarrow> 'sys \<Rightarrow> real list \<Rightarrow> real list \<times> real list" where
  "plot_transmission kw syst energies = plot_transmission_loop kw syst [] [] energies"

section \<open>Sample inputs\<close>

text \<open>
  Transmission tables on which the results below are evaluated: one whose rows all
  differ, and the table with every entry zero (no transmission between any two leads).
\<close>

definition sample_transmission :: "unit \<Rightarrow> real \<Rightarrow> 'ps \<Rightarrow> nat \<Rightarrow> nat \<Rightarrow> real" where
  "sample_transmission Hf EE ps i j = real (i + 2 * j)"

definition closed_transmission :: "unit \<Rightarrow> real \<Rightarrow> 'ps \<Rightarrow> nat \<Rightarrow> nat \<Rightarrow> real" where
  "closed_transmission Hf EE ps i j = 0"

text \<open>
  A table whose reduced conductance matrix is singular, lead 3 being cut off from the
  other three, and a table with one transmission of \<open>2^-53\<close>, which the running sum of
  its row loses.
\<close>

definition singular_table :: "unit \<Rightarrow> real \<Rightarrow> 'ps \<Rightarrow> nat \<Rightarrow> nat \<Rightarrow> real" where
  "singular_table Hf EE ps i j =
     [[0, 1, 1, 0], [1, 0, 1, 0], [3, 1, 0, 0], [0, 0, 0, 0]] ! i ! j"

definition rounding_table :: "unit \<Rightarrow> real \<Rightarrow> 'ps \<Rightarrow> nat \<Rightarrow> nat \<Rightarrow> real" where
  "rounding_table Hf EE ps i j =
     [[0, 1, 1 / 2 ^ 53, 1], [1, 0, 1, 1], [1, 1, 0, 1], [1, 1, 1, 0]] ! i ! j"

text \<open>
  Two tables that depend on the parameter object: one for the spin valve, one for the
  skyrmion, whose entries are proportional to \<^verbatim>\<open>ps.delta\<close>.
\<close>

definition sample_valve :: "unit \<Rightarrow> real \<Rightarrow> params \<Rightarrow> nat \<Rightarrow> nat \<Rightarrow> real" where
  "sample_valve Hf EE p i j = EE + p_Exc p * p_angle p + real i"

definition sample_skyrmion :: "unit \<Rightarrow> real \<Rightarrow> sky_params \<Rightarrow> nat \<Rightarrow> nat \<Rightarrow> real" where
  "sample_skyrmion Hf EE ps i j = ps_delta ps * real (i + 2 * j)"

section \<open>Evaluating the rounding\<close>

lemma pow2_pos: "0 < pow2 k"
  by (simp add: pow2_def)

lemma bitlen_unique:
  assumes "2 ^ k \<le> n" and "n < 2 ^ Suc k"
  shows "bitlen n = int k + 1"
proof -
  have "(0::int) < 2 ^ k" by simp
  with assms(1) have pos: "0 < n" by linarith
  let ?b = "bitlen n"
  from bitlen_bounds [OF pos] have lo: "2 ^ nat (?b - 1) \<le> n" and hi: "n < 2 ^ nat ?b"
    by simp_all
  have "(2::int) ^ nat (?b - 1) < 2 ^ Suc k"
    using lo assms(2) by linarith
  then have "nat (?b - 1) < Suc k"
    by (rule power_less_imp_less_exp [rotated]) simp
  moreover have "(2::int) ^ k < 2 ^ nat ?b"
    using hi assms(1) by linarith
  then have "k < nat ?b"
    by (rule power_less_imp_less_exp [rotated]) simp
  ultimately show ?thesis by linarith
qed

text \<open>The exponent that \<open>binade\<close> computes is the one of the binade that holds \<open>x\<close>.\<close>

lemma binade_eq:
  assumes lo: "pow2 e \<le> \<bar>x\<bar>" and hi: "\<bar>x\<bar> < pow2 (e + 1)"
  shows "binade x = e"
proof (cases "0 \<le> e")
  case True
  define k where "k = nat e"
  have e: "e = int k" using True by (simp add: k_def)
  have lo': "2 ^ k \<le> \<bar>x\<bar>" and hi': "\<bar>x\<bar> < 2 ^ Suc k"
    using lo hi by (simp_all add: pow2_def e nat_add_distrib)
  have "(1::real) \<le> 2 ^ k" by simp
  with lo' have one: "1 \<le> \<bar>x\<bar>" by linarith
  have "(2::int) ^ k \<le> \<lfloor>\<bar>x\<bar>\<rfloor>"
    using lo' by (simp add: le_floor_iff)
  moreover have "\<lfloor>\<bar>x\<bar>\<rfloor> < 2 ^ Suc k"
    using hi' by (simp add: floor_less_iff)
  ultimately have "bitlen \<lfloor>\<bar>x\<bar>\<rfloor> = int k + 1"
    by (rule bitlen_unique)
  with one show ?thesis by (simp add: binade_def e)
next
  case False
  define k where "k = nat (- e - 1)"
  have e: "e = - int (Suc k)" using False by (simp add: k_def)
  have "nat (- e) = Suc k"
    by (simp add: e)
  then have "pow2 e = 1 / 2 ^ Suc k"
    using False by (simp add: pow2_def del: power_Suc)
  moreover have "pow2 (e + 1) = 1 / 2 ^ k"
  proof (cases "k = 0")
    case True
    then show ?thesis by (simp add: pow2_def e)
  next
    case False
    have "e + 1 = - int k" by (simp add: e)
    moreover have "nat (int k) = k" by simp
    ultimately show ?thesis using False by (simp add: pow2_def)
  qed
  ultimately have lo': "1 / 2 ^ Suc k \<le> \<bar>x\<bar>" and hi': "\<bar>x\<bar> < 1 / 2 ^ k"
    using lo hi by simp_all
  have "(0::real) < 1 / 2 ^ Suc k" by simp
  with lo' have pos: "0 < \<bar>x\<bar>" by linarith
  have "(1::real) / 2 ^ k \<le> 1" by (simp add: divide_le_eq)
  with hi' have lt1: "\<bar>x\<bar> < 1" by linarith
  have up: "1 / \<bar>x\<bar> \<le> 2 ^ Suc k"
    using lo' pos by (simp add: field_simps)
  have dn: "2 ^ k < 1 / \<bar>x\<bar>"
    using hi' pos by (simp add: field_simps)
  have "\<lceil>1 / \<bar>x\<bar>\<rceil> \<le> 2 ^ Suc k"
    using up by (simp add: ceiling_le_iff)
  then have a: "\<lceil>1 / \<bar>x\<bar>\<rceil> - 1 < 2 ^ Suc k" by simp
  have "(2::int) ^ k < \<lceil>1 / \<bar>x\<bar>\<rceil>"
    using dn by (simp add: less_ceiling_iff)
  then have b: "(2::int) ^ k \<le> \<lceil>1 / \<bar>x\<bar>\<rceil> - 1" by simp
  from b a have "bitlen (\<lceil>1 / \<bar>x\<bar>\<rceil> - 1) = int k + 1"
    by (rule bitlen_unique)
  with lt1 show ?thesis by (simp add: binade_def e)
qed

lemma round_half_even_near:
  assumes "\<bar>y - of_int m\<bar> < 1 / 2"
  shows "round_half_even y = m"
proof (cases "of_int m \<le> y")
  case True
  with assms have "\<lfloor>y\<rfloor> = m" by (intro floor_unique) linarith+
  with assms True show ?thesis by (simp add: round_half_even_def)
next
  case False
  with assms have f: "\<lfloor>y\<rfloor> = m - 1" by (intro floor_unique) (simp, linarith+)
  with assms False show ?thesis by (simp add: round_half_even_def Let_def)
qed

lemma round_half_even_tie:
  assumes "\<bar>y - of_int m\<bar> = 1 / 2" and "even m"
  shows "round_half_even y = m"
proof (cases "of_int m \<le> y")
  case True
  with assms have "\<lfloor>y\<rfloor> = m" by (intro floor_unique) linarith+
  with assms True show ?thesis by (simp add: round_half_even_def)
next
  case False
  with assms have f: "\<lfloor>y\<rfloor> = m - 1" by (intro floor_unique) (simp, linarith+)
  with assms False show ?thesis by (simp add: round_half_even_def Let_def)
qed

text \<open>
  The value of \<open>round64\<close> at a number of a known binade: the multiple \<open>m\<close> of the spacing
  that is nearest, or the even one of the two nearest.
\<close>

lemma round64_val:
  assumes "pow2 e \<le> \<bar>x\<bar>" and "\<bar>x\<bar> < pow2 (e + 1)" and "- 1022 \<le> e"
    and "\<bar>x / pow2 (e - 52) - of_int m\<bar> < 1 / 2
         \<or> \<bar>x / pow2 (e - 52) - of_int m\<bar> = 1 / 2 \<and> even m"
  shows "round64 x = of_int m * pow2 (e - 52)"
proof -
  have "x \<noteq> 0" using assms(1) pow2_pos [of e] by auto
  moreover have "binade x = e" using assms(1,2) by (rule binade_eq)
  moreover have "round_half_even (x / pow2 (e - 52)) = m"
    using assms(4) round_half_even_near round_half_even_tie by blast
  ultimately show ?thesis using assms(3) by (simp add: round64_def max_def)
qed

lemma round64_zero: "round64 0 = 0"
  by (simp add: round64_def)

text \<open>
  The binary64 operations that the evaluations below perform, each with the exponent
  of its binade and its significand.
\<close>

lemma fl_1: "fadd 0 1 = 1"
  using round64_val [where x = "0 + 1" and e = "0" and m = "4503599627370496"]
  by (simp add: fadd_def pow2_def)

lemma fl_2: "fadd 1 1 = 2"
  using round64_val [where x = "1 + 1" and e = "1" and m = "4503599627370496"]
  by (simp add: fadd_def pow2_def)

lemma fl_3: "fadd 2 0 = 2"
  using round64_val [where x = "2 + 0" and e = "1" and m = "4503599627370496"]
  by (simp add: fadd_def pow2_def)

lemma fl_4: "fadd 0 3 = 3"
  using round64_val [where x = "0 + 3" and e = "1" and m = "6755399441055744"]
  by (simp add: fadd_def pow2_def)

lemma fl_5: "fadd 3 1 = 4"
  using round64_val [where x = "3 + 1" and e = "2" and m = "4503599627370496"]
  by (simp add: fadd_def pow2_def)

lemma fl_6: "fadd 4 0 = 4"
  using round64_val [where x = "4 + 0" and e = "2" and m = "4503599627370496"]
  by (simp add: fadd_def pow2_def)

lemma fl_7: "fadd 0 0 = 0"
  by (simp add: fadd_def round64_def)

lemma fl_8: "fdiv 1 3 = 6004799503160661 / 18014398509481984"
  using round64_val [where x = "1 / 3" and e = "- 2" and m = "6004799503160661"]
  by (simp add: fdiv_def pow2_def)

lemma fl_9: "fmul (6004799503160661 / 18014398509481984) 1 = 6004799503160661 / 18014398509481984"
  using round64_val [where x = "(6004799503160661 / 18014398509481984) * 1" and e = "- 2" and m = "6004799503160661"]
  by (simp add: fmul_def pow2_def)

lemma fl_10: "fsub (- 2) (6004799503160661 / 18014398509481984) = - (5254199565265579 / 2251799813685248)"
  using round64_val [where x = "(- 2) - (6004799503160661 / 18014398509481984)" and e = "1" and m = "- 5254199565265579"]
  by (simp add: fsub_def pow2_def)

lemma fl_11: "fmul (6004799503160661 / 18014398509481984) (- 4) = - (6004799503160661 / 4503599627370496)"
  using round64_val [where x = "(6004799503160661 / 18014398509481984) * (- 4)" and e = "0" and m = "- 6004799503160661"]
  by (simp add: fmul_def pow2_def)

lemma fl_12: "fsub 1 (- (6004799503160661 / 4503599627370496)) = 2627099782632789 / 1125899906842624"
  using round64_val [where x = "1 - (- (6004799503160661 / 4503599627370496))" and e = "1" and m = "5254199565265578"]
  by (simp add: fsub_def pow2_def)

lemma fl_13: "fmul (6004799503160661 / 18014398509481984) 0 = 0"
  by (simp add: fmul_def round64_def)

lemma fl_14: "fsub 0 0 = 0"
  by (simp add: fsub_def round64_def)

lemma fl_15: "fdiv (- 2) 3 = - (6004799503160661 / 9007199254740992)"
  using round64_val [where x = "(- 2) / 3" and e = "- 1" and m = "- 6004799503160661"]
  by (simp add: fdiv_def pow2_def)

lemma fl_16: "fmul (- (6004799503160661 / 9007199254740992)) 1 = - (6004799503160661 / 9007199254740992)"
  using round64_val [where x = "(- (6004799503160661 / 9007199254740992)) * 1" and e = "- 1" and m = "- 6004799503160661"]
  by (simp add: fmul_def pow2_def)

lemma fl_17: "fsub 1 (- (6004799503160661 / 9007199254740992)) = 3752999689475413 / 2251799813685248"
  using round64_val [where x = "1 - (- (6004799503160661 / 9007199254740992))" and e = "0" and m = "7505999378950826"]
  by (simp add: fsub_def pow2_def)

lemma fl_18: "fmul (- (6004799503160661 / 9007199254740992)) (- 4) = 6004799503160661 / 2251799813685248"
  using round64_val [where x = "(- (6004799503160661 / 9007199254740992)) * (- 4)" and e = "1" and m = "6004799503160661"]
  by (simp add: fmul_def pow2_def)

lemma fl_19: "fsub 1 (6004799503160661 / 2251799813685248) = - (3752999689475413 / 2251799813685248)"
  using round64_val [where x = "1 - (6004799503160661 / 2251799813685248)" and e = "0" and m = "- 7505999378950826"]
  by (simp add: fsub_def pow2_def)

lemma fl_20: "fmul (- (6004799503160661 / 9007199254740992)) 0 = 0"
  by (simp add: fmul_def round64_def)

lemma fl_21: "fsub 1 0 = 1"
  using round64_val [where x = "1 - 0" and e = "0" and m = "4503599627370496"]
  by (simp add: fsub_def pow2_def)

lemma fl_22: "fdiv (3752999689475413 / 2251799813685248) (- (5254199565265579 / 2251799813685248)) = - (3216856876693211 / 4503599627370496)"
  using round64_val [where x = "(3752999689475413 / 2251799813685248) / (- (5254199565265579 / 2251799813685248))" and e = "- 1" and m = "- 6433713753386422"]
  by (simp add: fdiv_def pow2_def)

lemma fl_23: "fmul (- (3216856876693211 / 4503599627370496)) (2627099782632789 / 1125899906842624) = - (7505999378950825 / 4503599627370496)"
  using round64_val [where x = "(- (3216856876693211 / 4503599627370496)) * (2627099782632789 / 1125899906842624)" and e = "0" and m = "- 7505999378950825"]
  by (simp add: fmul_def pow2_def)

lemma fl_24: "fsub (- (3752999689475413 / 2251799813685248)) (- (7505999378950825 / 4503599627370496)) = - (1 / 4503599627370496)"
  using round64_val [where x = "(- (3752999689475413 / 2251799813685248)) - (- (7505999378950825 / 4503599627370496))" and e = "- 52" and m = "- 4503599627370496"]
  by (simp add: fsub_def pow2_def)

lemma fl_25: "fmul (- (3216856876693211 / 4503599627370496)) 0 = 0"
  by (simp add: fmul_def round64_def)

lemma fl_26: "fdiv 1 (- (1 / 4503599627370496)) = - 4503599627370496"
  using round64_val [where x = "1 / (- (1 / 4503599627370496))" and e = "52" and m = "- 4503599627370496"]
  by (simp add: fdiv_def pow2_def)

lemma fl_27: "fmul (2627099782632789 / 1125899906842624) (- 4503599627370496) = - 10508399130531156"
  using round64_val [where x = "(2627099782632789 / 1125899906842624) * (- 4503599627370496)" and e = "53" and m = "- 5254199565265578"]
  by (simp add: fmul_def pow2_def)

lemma fl_28: "fsub 0 (- 10508399130531156) = 10508399130531156"
  using round64_val [where x = "0 - (- 10508399130531156)" and e = "53" and m = "5254199565265578"]
  by (simp add: fsub_def pow2_def)

lemma fl_29: "fdiv 10508399130531156 (- (5254199565265579 / 2251799813685248)) = - 4503599627370495"
  using round64_val [where x = "10508399130531156 / (- (5254199565265579 / 2251799813685248))" and e = "51" and m = "- 9007199254740990"]
  by (simp add: fdiv_def pow2_def)

lemma fl_30: "fmul 1 (- 4503599627370495) = - 4503599627370495"
  using round64_val [where x = "1 * (- 4503599627370495)" and e = "51" and m = "- 9007199254740990"]
  by (simp add: fmul_def pow2_def)

lemma fl_31: "fsub 0 (- 4503599627370495) = 4503599627370495"
  using round64_val [where x = "0 - (- 4503599627370495)" and e = "51" and m = "9007199254740990"]
  by (simp add: fsub_def pow2_def)

lemma fl_32: "fmul (- 4) (- 4503599627370496) = 18014398509481984"
  using round64_val [where x = "(- 4) * (- 4503599627370496)" and e = "54" and m = "4503599627370496"]
  by (simp add: fmul_def pow2_def)

lemma fl_33: "fsub 4503599627370495 18014398509481984 = - 13510798882111488"
  using round64_val [where x = "4503599627370495 - 18014398509481984" and e = "53" and m = "- 6755399441055744"]
  by (simp add: fsub_def pow2_def)

lemma fl_34: "fdiv (- 13510798882111488) 3 = - 4503599627370496"
  using round64_val [where x = "(- 13510798882111488) / 3" and e = "52" and m = "- 4503599627370496"]
  by (simp add: fdiv_def pow2_def)

lemma fl_35: "fsub (- 4503599627370496) (- 4503599627370495) = - 1"
  using round64_val [where x = "(- 4503599627370496) - (- 4503599627370495)" and e = "0" and m = "- 4503599627370496"]
  by (simp add: fsub_def pow2_def)

lemma fl_36: "fadd 0 2 = 2"
  using round64_val [where x = "0 + 2" and e = "1" and m = "4503599627370496"]
  by (simp add: fadd_def pow2_def)

lemma fl_37: "fadd 2 4 = 6"
  using round64_val [where x = "2 + 4" and e = "2" and m = "6755399441055744"]
  by (simp add: fadd_def pow2_def)

lemma fl_38: "fadd 6 6 = 12"
  using round64_val [where x = "6 + 6" and e = "3" and m = "6755399441055744"]
  by (simp add: fadd_def pow2_def)

lemma fl_39: "fadd 1 5 = 6"
  using round64_val [where x = "1 + 5" and e = "2" and m = "6755399441055744"]
  by (simp add: fadd_def pow2_def)

lemma fl_40: "fadd 6 7 = 13"
  using round64_val [where x = "6 + 7" and e = "3" and m = "7318349394477056"]
  by (simp add: fadd_def pow2_def)

lemma fl_41: "fadd 6 8 = 14"
  using round64_val [where x = "6 + 8" and e = "3" and m = "7881299347898368"]
  by (simp add: fadd_def pow2_def)

lemma fl_42: "fadd 3 5 = 8"
  using round64_val [where x = "3 + 5" and e = "3" and m = "4503599627370496"]
  by (simp add: fadd_def pow2_def)

lemma fl_43: "fadd 8 7 = 15"
  using round64_val [where x = "8 + 7" and e = "3" and m = "8444249301319680"]
  by (simp add: fadd_def pow2_def)

lemma fl_44: "fdiv 1 (- 12) = - (6004799503160661 / 72057594037927936)"
  using round64_val [where x = "1 / (- 12)" and e = "- 4" and m = "- 6004799503160661"]
  by (simp add: fdiv_def pow2_def)

lemma fl_45: "fmul (- (6004799503160661 / 72057594037927936)) 2 = - (6004799503160661 / 36028797018963968)"
  using round64_val [where x = "(- (6004799503160661 / 72057594037927936)) * 2" and e = "- 3" and m = "- 6004799503160661"]
  by (simp add: fmul_def pow2_def)

lemma fl_46: "fsub (- 13) (- (6004799503160661 / 36028797018963968)) = - (7224524402240171 / 562949953421312)"
  using round64_val [where x = "(- 13) - (- (6004799503160661 / 36028797018963968))" and e = "3" and m = "- 7224524402240171"]
  by (simp add: fsub_def pow2_def)

lemma fl_47: "fmul (- (6004799503160661 / 72057594037927936)) 4 = - (6004799503160661 / 18014398509481984)"
  using round64_val [where x = "(- (6004799503160661 / 72057594037927936)) * 4" and e = "- 2" and m = "- 6004799503160661"]
  by (simp add: fmul_def pow2_def)

lemma fl_48: "fsub 5 (- (6004799503160661 / 18014398509481984)) = 6004799503160661 / 1125899906842624"
  using round64_val [where x = "5 - (- (6004799503160661 / 18014398509481984))" and e = "2" and m = "6004799503160661"]
  by (simp add: fsub_def pow2_def)

lemma fl_49: "fmul (- (6004799503160661 / 72057594037927936)) 1 = - (6004799503160661 / 72057594037927936)"
  using round64_val [where x = "(- (6004799503160661 / 72057594037927936)) * 1" and e = "- 4" and m = "- 6004799503160661"]
  by (simp add: fmul_def pow2_def)

lemma fl_50: "fsub 0 (- (6004799503160661 / 72057594037927936)) = 6004799503160661 / 72057594037927936"
  using round64_val [where x = "0 - (- (6004799503160661 / 72057594037927936))" and e = "- 4" and m = "6004799503160661"]
  by (simp add: fsub_def pow2_def)

lemma fl_51: "fdiv 2 (- 12) = - (6004799503160661 / 36028797018963968)"
  using round64_val [where x = "2 / (- 12)" and e = "- 3" and m = "- 6004799503160661"]
  by (simp add: fdiv_def pow2_def)

lemma fl_52: "fmul (- (6004799503160661 / 36028797018963968)) 2 = - (6004799503160661 / 18014398509481984)"
  using round64_val [where x = "(- (6004799503160661 / 36028797018963968)) * 2" and e = "- 2" and m = "- 6004799503160661"]
  by (simp add: fmul_def pow2_def)

lemma fl_53: "fsub 4 (- (6004799503160661 / 18014398509481984)) = 4878899596318037 / 1125899906842624"
  using round64_val [where x = "4 - (- (6004799503160661 / 18014398509481984))" and e = "2" and m = "4878899596318037"]
  by (simp add: fsub_def pow2_def)

lemma fl_54: "fmul (- (6004799503160661 / 36028797018963968)) 4 = - (6004799503160661 / 9007199254740992)"
  using round64_val [where x = "(- (6004799503160661 / 36028797018963968)) * 4" and e = "- 1" and m = "- 6004799503160661"]
  by (simp add: fmul_def pow2_def)

lemma fl_55: "fsub (- 14) (- (6004799503160661 / 9007199254740992)) = - (7505999378950827 / 562949953421312)"
  using round64_val [where x = "(- 14) - (- (6004799503160661 / 9007199254740992))" and e = "3" and m = "- 7505999378950827"]
  by (simp add: fsub_def pow2_def)

lemma fl_56: "fmul (- (6004799503160661 / 36028797018963968)) 1 = - (6004799503160661 / 36028797018963968)"
  using round64_val [where x = "(- (6004799503160661 / 36028797018963968)) * 1" and e = "- 3" and m = "- 6004799503160661"]
  by (simp add: fmul_def pow2_def)

lemma fl_57: "fsub 0 (- (6004799503160661 / 36028797018963968)) = 6004799503160661 / 36028797018963968"
  using round64_val [where x = "0 - (- (6004799503160661 / 36028797018963968))" and e = "- 3" and m = "6004799503160661"]
  by (simp add: fsub_def pow2_def)

lemma fl_58: "fdiv (4878899596318037 / 1125899906842624) (- (7224524402240171 / 562949953421312)) = - (6082783912292617 / 18014398509481984)"
  using round64_val [where x = "(4878899596318037 / 1125899906842624) / (- (7224524402240171 / 562949953421312))" and e = "- 2" and m = "- 6082783912292617"]
  by (simp add: fdiv_def pow2_def)

lemma fl_59: "fmul (- (6082783912292617 / 18014398509481984)) (6004799503160661 / 1125899906842624) = - (8110378549723489 / 4503599627370496)"
  using round64_val [where x = "(- (6082783912292617 / 18014398509481984)) * (6004799503160661 / 1125899906842624)" and e = "0" and m = "- 8110378549723489"]
  by (simp add: fmul_def pow2_def)

lemma fl_60: "fsub (- (7505999378950827 / 562949953421312)) (- (8110378549723489 / 4503599627370496)) = - (6492202060235391 / 562949953421312)"
  using round64_val [where x = "(- (7505999378950827 / 562949953421312)) - (- (8110378549723489 / 4503599627370496))" and e = "3" and m = "- 6492202060235391"]
  by (simp add: fsub_def pow2_def)

lemma fl_61: "fmul (- (6082783912292617 / 18014398509481984)) (6004799503160661 / 72057594037927936) = - (8110378549723489 / 288230376151711744)"
  using round64_val [where x = "(- (6082783912292617 / 18014398509481984)) * (6004799503160661 / 72057594037927936)" and e = "- 6" and m = "- 8110378549723489"]
  by (simp add: fmul_def pow2_def)

lemma fl_62: "fsub (6004799503160661 / 36028797018963968) (- (8110378549723489 / 288230376151711744)) = 7018596821876097 / 36028797018963968"
  using round64_val [where x = "(6004799503160661 / 36028797018963968) - (- (8110378549723489 / 288230376151711744))" and e = "- 3" and m = "7018596821876097"]
  by (simp add: fsub_def pow2_def)

lemma fl_63: "fdiv (7018596821876097 / 36028797018963968) (- (6492202060235391 / 562949953421312)) = - (4868756353914049 / 288230376151711744)"
  using round64_val [where x = "(7018596821876097 / 36028797018963968) / (- (6492202060235391 / 562949953421312))" and e = "- 6" and m = "- 4868756353914049"]
  by (simp add: fdiv_def pow2_def)

lemma fl_64: "fmul (6004799503160661 / 1125899906842624) (- (4868756353914049 / 288230376151711744)) = - (6491675138552065 / 72057594037927936)"
  using round64_val [where x = "(6004799503160661 / 1125899906842624) * (- (4868756353914049 / 288230376151711744))" and e = "- 4" and m = "- 6491675138552065"]
  by (simp add: fmul_def pow2_def)

lemma fl_65: "fsub (6004799503160661 / 72057594037927936) (- (6491675138552065 / 72057594037927936)) = 6248237320856363 / 36028797018963968"
  using round64_val [where x = "(6004799503160661 / 72057594037927936) - (- (6491675138552065 / 72057594037927936))" and e = "- 3" and m = "6248237320856363"]
  by (simp add: fsub_def pow2_def)

lemma fl_66: "fdiv (6248237320856363 / 36028797018963968) (- (7224524402240171 / 562949953421312)) = - (3895005083131239 / 288230376151711744)"
  using round64_val [where x = "(6248237320856363 / 36028797018963968) / (- (7224524402240171 / 562949953421312))" and e = "- 7" and m = "- 7790010166262478"]
  by (simp add: fdiv_def pow2_def)

lemma fl_67: "fmul 2 (- (3895005083131239 / 288230376151711744)) = - (3895005083131239 / 144115188075855872)"
  using round64_val [where x = "2 * (- (3895005083131239 / 288230376151711744))" and e = "- 6" and m = "- 7790010166262478"]
  by (simp add: fmul_def pow2_def)

lemma fl_68: "fsub 1 (- (3895005083131239 / 144115188075855872)) = 4625318536218347 / 4503599627370496"
  using round64_val [where x = "1 - (- (3895005083131239 / 144115188075855872))" and e = "0" and m = "4625318536218347"]
  by (simp add: fsub_def pow2_def)

lemma fl_69: "fmul 4 (- (4868756353914049 / 288230376151711744)) = - (4868756353914049 / 72057594037927936)"
  using round64_val [where x = "4 * (- (4868756353914049 / 288230376151711744))" and e = "- 4" and m = "- 4868756353914049"]
  by (simp add: fmul_def pow2_def)

lemma fl_70: "fsub (4625318536218347 / 4503599627370496) (- (4868756353914049 / 72057594037927936)) = 4929615808337975 / 4503599627370496"
  using round64_val [where x = "(4625318536218347 / 4503599627370496) - (- (4868756353914049 / 72057594037927936))" and e = "0" and m = "4929615808337975"]
  by (simp add: fsub_def pow2_def)

lemma fl_71: "fdiv (4929615808337975 / 4503599627370496) (- 12) = - (6572821077783967 / 72057594037927936)"
  using round64_val [where x = "(4929615808337975 / 4503599627370496) / (- 12)" and e = "- 4" and m = "- 6572821077783967"]
  by (simp add: fdiv_def pow2_def)

lemma fl_72: "fsub (- (4868756353914049 / 288230376151711744)) (- (3895005083131239 / 288230376151711744)) = - (486875635391405 / 144115188075855872)"
  using round64_val [where x = "(- (4868756353914049 / 288230376151711744)) - (- (3895005083131239 / 288230376151711744))" and e = "- 9" and m = "- 7790010166262480"]
  by (simp add: fsub_def pow2_def)

lemma fl_73: "fadd 1 (1 / 9007199254740992) = 1"
  using round64_val [where x = "1 + (1 / 9007199254740992)" and e = "0" and m = "4503599627370496"]
  by (simp add: fadd_def pow2_def)

lemma fl_74: "fadd 2 1 = 3"
  using round64_val [where x = "2 + 1" and e = "1" and m = "6755399441055744"]
  by (simp add: fadd_def pow2_def)

lemma fl_75: "fdiv 1 (- 2) = - (1 / 2)"
  using round64_val [where x = "1 / (- 2)" and e = "- 1" and m = "- 4503599627370496"]
  by (simp add: fdiv_def pow2_def)

lemma fl_76: "fmul (- (1 / 2)) 1 = - (1 / 2)"
  using round64_val [where x = "(- (1 / 2)) * 1" and e = "- 1" and m = "- 4503599627370496"]
  by (simp add: fmul_def pow2_def)

lemma fl_77: "fsub (- 3) (- (1 / 2)) = - (5 / 2)"
  using round64_val [where x = "(- 3) - (- (1 / 2))" and e = "1" and m = "- 5629499534213120"]
  by (simp add: fsub_def pow2_def)

lemma fl_78: "fmul (- (1 / 2)) (1 / 9007199254740992) = - (1 / 18014398509481984)"
  using round64_val [where x = "(- (1 / 2)) * (1 / 9007199254740992)" and e = "- 54" and m = "- 4503599627370496"]
  by (simp add: fmul_def pow2_def)

lemma fl_79: "fsub 1 (- (1 / 18014398509481984)) = 1"
  using round64_val [where x = "1 - (- (1 / 18014398509481984))" and e = "0" and m = "4503599627370496"]
  by (simp add: fsub_def pow2_def)

lemma fl_80: "fsub 0 (- (1 / 2)) = 1 / 2"
  using round64_val [where x = "0 - (- (1 / 2))" and e = "- 1" and m = "4503599627370496"]
  by (simp add: fsub_def pow2_def)

lemma fl_81: "fsub 1 (- (1 / 2)) = 3 / 2"
  using round64_val [where x = "1 - (- (1 / 2))" and e = "0" and m = "6755399441055744"]
  by (simp add: fsub_def pow2_def)

lemma fl_82: "fsub (- 3) (- (1 / 18014398509481984)) = - 3"
  using round64_val [where x = "(- 3) - (- (1 / 18014398509481984))" and e = "1" and m = "- 6755399441055744"]
  by (simp add: fsub_def pow2_def)

lemma fl_83: "fdiv (3 / 2) (- (5 / 2)) = - (5404319552844595 / 9007199254740992)"
  using round64_val [where x = "(3 / 2) / (- (5 / 2))" and e = "- 1" and m = "- 5404319552844595"]
  by (simp add: fdiv_def pow2_def)

lemma fl_84: "fmul (- (5404319552844595 / 9007199254740992)) 1 = - (5404319552844595 / 9007199254740992)"
  using round64_val [where x = "(- (5404319552844595 / 9007199254740992)) * 1" and e = "- 1" and m = "- 5404319552844595"]
  by (simp add: fmul_def pow2_def)

lemma fl_85: "fsub (- 3) (- (5404319552844595 / 9007199254740992)) = - (5404319552844595 / 2251799813685248)"
  using round64_val [where x = "(- 3) - (- (5404319552844595 / 9007199254740992))" and e = "1" and m = "- 5404319552844595"]
  by (simp add: fsub_def pow2_def)

lemma fl_86: "fmul (- (5404319552844595 / 9007199254740992)) (1 / 2) = - (5404319552844595 / 18014398509481984)"
  using round64_val [where x = "(- (5404319552844595 / 9007199254740992)) * (1 / 2)" and e = "- 2" and m = "- 5404319552844595"]
  by (simp add: fmul_def pow2_def)

lemma fl_87: "fsub (1 / 2) (- (5404319552844595 / 18014398509481984)) = 3602879701896397 / 4503599627370496"
  using round64_val [where x = "(1 / 2) - (- (5404319552844595 / 18014398509481984))" and e = "- 1" and m = "7205759403792794"]
  by (simp add: fsub_def pow2_def)

lemma fl_88: "fdiv (3602879701896397 / 4503599627370496) (- (5404319552844595 / 2251799813685248)) = - (3002399751580331 / 9007199254740992)"
  using round64_val [where x = "(3602879701896397 / 4503599627370496) / (- (5404319552844595 / 2251799813685248))" and e = "- 2" and m = "- 6004799503160662"]
  by (simp add: fdiv_def pow2_def)

lemma fl_89: "fmul 1 (- (3002399751580331 / 9007199254740992)) = - (3002399751580331 / 9007199254740992)"
  using round64_val [where x = "1 * (- (3002399751580331 / 9007199254740992))" and e = "- 2" and m = "- 6004799503160662"]
  by (simp add: fmul_def pow2_def)

lemma fl_90: "fsub (1 / 2) (- (3002399751580331 / 9007199254740992)) = 7505999378950827 / 9007199254740992"
  using round64_val [where x = "(1 / 2) - (- (3002399751580331 / 9007199254740992))" and e = "- 1" and m = "7505999378950827"]
  by (simp add: fsub_def pow2_def)

lemma fl_91: "fdiv (7505999378950827 / 9007199254740992) (- (5 / 2)) = - (3002399751580331 / 9007199254740992)"
  using round64_val [where x = "(7505999378950827 / 9007199254740992) / (- (5 / 2))" and e = "- 2" and m = "- 6004799503160662"]
  by (simp add: fdiv_def pow2_def)

lemma fl_92: "fsub 1 (- (3002399751580331 / 9007199254740992)) = 3002399751580331 / 2251799813685248"
  using round64_val [where x = "1 - (- (3002399751580331 / 9007199254740992))" and e = "0" and m = "6004799503160662"]
  by (simp add: fsub_def pow2_def)

lemma fl_93: "fmul (1 / 9007199254740992) (- (3002399751580331 / 9007199254740992)) = - (3002399751580331 / 81129638414606681695789005144064)"
  using round64_val [where x = "(1 / 9007199254740992) * (- (3002399751580331 / 9007199254740992))" and e = "- 55" and m = "- 6004799503160662"]
  by (simp add: fmul_def pow2_def)

lemma fl_94: "fsub (3002399751580331 / 2251799813685248) (- (3002399751580331 / 81129638414606681695789005144064)) = 3002399751580331 / 2251799813685248"
  using round64_val [where x = "(3002399751580331 / 2251799813685248) - (- (3002399751580331 / 81129638414606681695789005144064))" and e = "0" and m = "6004799503160662"]
  by (simp add: fsub_def pow2_def)

lemma fl_95: "fdiv (3002399751580331 / 2251799813685248) (- 2) = - (3002399751580331 / 4503599627370496)"
  using round64_val [where x = "(3002399751580331 / 2251799813685248) / (- 2)" and e = "- 1" and m = "- 6004799503160662"]
  by (simp add: fdiv_def pow2_def)

lemma fl_96: "fsub (- (3002399751580331 / 9007199254740992)) (- (3002399751580331 / 9007199254740992)) = 0"
  by (simp add: fsub_def round64_def)

lemma fl_97: "fadd 0 4 = 4"
  using round64_val [where x = "0 + 4" and e = "2" and m = "4503599627370496"]
  by (simp add: fadd_def pow2_def)

lemma fl_98: "fadd 4 8 = 12"
  using round64_val [where x = "4 + 8" and e = "3" and m = "6755399441055744"]
  by (simp add: fadd_def pow2_def)

lemma fl_99: "fadd 12 12 = 24"
  using round64_val [where x = "12 + 12" and e = "4" and m = "6755399441055744"]
  by (simp add: fadd_def pow2_def)

lemma fl_100: "fadd 2 10 = 12"
  using round64_val [where x = "2 + 10" and e = "3" and m = "6755399441055744"]
  by (simp add: fadd_def pow2_def)

lemma fl_101: "fadd 12 14 = 26"
  using round64_val [where x = "12 + 14" and e = "4" and m = "7318349394477056"]
  by (simp add: fadd_def pow2_def)

lemma fl_102: "fadd 12 16 = 28"
  using round64_val [where x = "12 + 16" and e = "4" and m = "7881299347898368"]
  by (simp add: fadd_def pow2_def)

lemma fl_103: "fadd 0 6 = 6"
  using round64_val [where x = "0 + 6" and e = "2" and m = "6755399441055744"]
  by (simp add: fadd_def pow2_def)

lemma fl_104: "fadd 6 10 = 16"
  using round64_val [where x = "6 + 10" and e = "4" and m = "4503599627370496"]
  by (simp add: fadd_def pow2_def)

lemma fl_105: "fadd 16 14 = 30"
  using round64_val [where x = "16 + 14" and e = "4" and m = "8444249301319680"]
  by (simp add: fadd_def pow2_def)

lemma fl_106: "fdiv 2 (- 24) = - (6004799503160661 / 72057594037927936)"
  using round64_val [where x = "2 / (- 24)" and e = "- 4" and m = "- 6004799503160661"]
  by (simp add: fdiv_def pow2_def)

lemma fl_107: "fsub (- 26) (- (6004799503160661 / 18014398509481984)) = - (7224524402240171 / 281474976710656)"
  using round64_val [where x = "(- 26) - (- (6004799503160661 / 18014398509481984))" and e = "4" and m = "- 7224524402240171"]
  by (simp add: fsub_def pow2_def)

lemma fl_108: "fmul (- (6004799503160661 / 72057594037927936)) 8 = - (6004799503160661 / 9007199254740992)"
  using round64_val [where x = "(- (6004799503160661 / 72057594037927936)) * 8" and e = "- 1" and m = "- 6004799503160661"]
  by (simp add: fmul_def pow2_def)

lemma fl_109: "fsub 10 (- (6004799503160661 / 9007199254740992)) = 6004799503160661 / 562949953421312"
  using round64_val [where x = "10 - (- (6004799503160661 / 9007199254740992))" and e = "3" and m = "6004799503160661"]
  by (simp add: fsub_def pow2_def)

lemma fl_110: "fdiv 4 (- 24) = - (6004799503160661 / 36028797018963968)"
  using round64_val [where x = "4 / (- 24)" and e = "- 3" and m = "- 6004799503160661"]
  by (simp add: fdiv_def pow2_def)

lemma fl_111: "fsub 8 (- (6004799503160661 / 9007199254740992)) = 4878899596318037 / 562949953421312"
  using round64_val [where x = "8 - (- (6004799503160661 / 9007199254740992))" and e = "3" and m = "4878899596318037"]
  by (simp add: fsub_def pow2_def)

lemma fl_112: "fmul (- (6004799503160661 / 36028797018963968)) 8 = - (6004799503160661 / 4503599627370496)"
  using round64_val [where x = "(- (6004799503160661 / 36028797018963968)) * 8" and e = "0" and m = "- 6004799503160661"]
  by (simp add: fmul_def pow2_def)

lemma fl_113: "fsub (- 28) (- (6004799503160661 / 4503599627370496)) = - (7505999378950827 / 281474976710656)"
  using round64_val [where x = "(- 28) - (- (6004799503160661 / 4503599627370496))" and e = "4" and m = "- 7505999378950827"]
  by (simp add: fsub_def pow2_def)

lemma fl_114: "fdiv (4878899596318037 / 562949953421312) (- (7224524402240171 / 281474976710656)) = - (6082783912292617 / 18014398509481984)"
  using round64_val [where x = "(4878899596318037 / 562949953421312) / (- (7224524402240171 / 281474976710656))" and e = "- 2" and m = "- 6082783912292617"]
  by (simp add: fdiv_def pow2_def)

lemma fl_115: "fmul (- (6082783912292617 / 18014398509481984)) (6004799503160661 / 562949953421312) = - (8110378549723489 / 2251799813685248)"
  using round64_val [where x = "(- (6082783912292617 / 18014398509481984)) * (6004799503160661 / 562949953421312)" and e = "1" and m = "- 8110378549723489"]
  by (simp add: fmul_def pow2_def)

lemma fl_116: "fsub (- (7505999378950827 / 281474976710656)) (- (8110378549723489 / 2251799813685248)) = - (6492202060235391 / 281474976710656)"
  using round64_val [where x = "(- (7505999378950827 / 281474976710656)) - (- (8110378549723489 / 2251799813685248))" and e = "4" and m = "- 6492202060235391"]
  by (simp add: fsub_def pow2_def)

lemma fl_117: "fdiv (7018596821876097 / 36028797018963968) (- (6492202060235391 / 281474976710656)) = - (4868756353914049 / 576460752303423488)"
  using round64_val [where x = "(7018596821876097 / 36028797018963968) / (- (6492202060235391 / 281474976710656))" and e = "- 7" and m = "- 4868756353914049"]
  by (simp add: fdiv_def pow2_def)

lemma fl_118: "fmul (6004799503160661 / 562949953421312) (- (4868756353914049 / 576460752303423488)) = - (6491675138552065 / 72057594037927936)"
  using round64_val [where x = "(6004799503160661 / 562949953421312) * (- (4868756353914049 / 576460752303423488))" and e = "- 4" and m = "- 6491675138552065"]
  by (simp add: fmul_def pow2_def)

lemma fl_119: "fdiv (6248237320856363 / 36028797018963968) (- (7224524402240171 / 281474976710656)) = - (3895005083131239 / 576460752303423488)"
  using round64_val [where x = "(6248237320856363 / 36028797018963968) / (- (7224524402240171 / 281474976710656))" and e = "- 8" and m = "- 7790010166262478"]
  by (simp add: fdiv_def pow2_def)

lemma fl_120: "fmul 4 (- (3895005083131239 / 576460752303423488)) = - (3895005083131239 / 144115188075855872)"
  using round64_val [where x = "4 * (- (3895005083131239 / 576460752303423488))" and e = "- 6" and m = "- 7790010166262478"]
  by (simp add: fmul_def pow2_def)

lemma fl_121: "fmul 8 (- (4868756353914049 / 576460752303423488)) = - (4868756353914049 / 72057594037927936)"
  using round64_val [where x = "8 * (- (4868756353914049 / 576460752303423488))" and e = "- 4" and m = "- 4868756353914049"]
  by (simp add: fmul_def pow2_def)

lemma fl_122: "fdiv (4929615808337975 / 4503599627370496) (- 24) = - (6572821077783967 / 144115188075855872)"
  using round64_val [where x = "(4929615808337975 / 4503599627370496) / (- 24)" and e = "- 5" and m = "- 6572821077783967"]
  by (simp add: fdiv_def pow2_def)

lemma fl_123: "fsub (- (4868756353914049 / 576460752303423488)) (- (3895005083131239 / 576460752303423488)) = - (486875635391405 / 288230376151711744)"
  using round64_val [where x = "(- (4868756353914049 / 576460752303423488)) - (- (3895005083131239 / 576460752303423488))" and e = "- 10" and m = "- 7790010166262480"]
  by (simp add: fsub_def pow2_def)

lemmas binary64_ops = fl_1 fl_2 fl_3 fl_4 fl_5 fl_6 fl_7 fl_8 fl_9 fl_10 fl_11 fl_12 fl_13
  fl_14 fl_15 fl_16 fl_17 fl_18 fl_19 fl_20 fl_21 fl_22 fl_23 fl_24 fl_25 fl_26 fl_27 fl_28
  fl_29 fl_30 fl_31 fl_32 fl_33 fl_34 fl_35 fl_36 fl_37 fl_38 fl_39 fl_40 fl_41 fl_42 fl_43
  fl_44 fl_45 fl_46 fl_47 fl_48 fl_49 fl_50 fl_51 fl_52 fl_53 fl_54 fl_55 fl_56 fl_57 fl_58
  fl_59 fl_60 fl_61 fl_62 fl_63 fl_64 fl_65 fl_66 fl_67 fl_68 fl_69 fl_70 fl_71 fl_72 fl_73
  fl_74 fl_75 fl_76 fl_77 fl_78 fl_79 fl_80 fl_81 fl_82 fl_83 fl_84 fl_85 fl_86 fl_87 fl_88
  fl_89 fl_90 fl_91 fl_92 fl_93 fl_94 fl_95 fl_96 fl_97 fl_98 fl_99 fl_100 fl_101 fl_102 fl_103
  fl_104 fl_105 fl_106 fl_107 fl_108 fl_109 fl_110 fl_111 fl_112 fl_113 fl_114 fl_115 fl_116
  fl_117 fl_118 fl_119 fl_120 fl_121 fl_122 fl_123

section \<open>The conductance matrix\<close>

lemma upt_4: "[0..<4] = [0, 1, 2, Suc 2]"
  by (simp add: upt_rec)

lemma upt_3: "[0..<3] = [0, 1, 2]"
  by (simp add: upt_rec)

lemma upt_from: "[Suc 0..<3] = [1, 2]" "[Suc 1..<3] = [2]" "[Suc 2..<3] = []"
  by (simp_all add: upt_rec)

lemma lt4_cases: "i < (4::nat) \<Longrightarrow> i = 0 \<or> i = 1 \<or> i = 2 \<or> i = 3"
  by arith

lemma Transport_G_unfold:
  "Transport_G T =
     [[- fadd (fadd (fadd 0 (T 0 1)) (T 0 2)) (T 0 3), T 0 1, T 0 2, T 0 3],
      [T 1 0, - fadd (fadd (fadd 0 (T 1 0)) (T 1 2)) (T 1 3), T 1 2, T 1 3],
      [T 2 0, T 2 1, - fadd (fadd (fadd 0 (T 2 0)) (T 2 1)) (T 2 3), T 2 3],
      [T 3 0, T 3 1, T 3 2, - fadd (fadd (fadd 0 (T 3 0)) (T 3 1)) (T 3 2)]]"
  by (simp add: Transport_G_def Transport_outer_def Transport_inner_def set_item_def zeros_def
      upt_4 eval_nat_numeral)

lemma slice3_explicit:
  "slice3 [[a, b, c, x], [d, e, f, y], [g, h, i, z], w] = [[a, b, c], [d, e, f], [g, h, i]]"
  by (simp add: slice3_def eval_nat_numeral)

lemma slice3_shape:
  "\<exists>a b c d e f g h i. slice3 (Transport_G T) = [[a, b, c], [d, e, f], [g, h, i]]"
  unfolding Transport_G_unfold slice3_explicit by blast

lemma Transport_unfold:
  "Transport kw solve Hf EE ps =
     (case fst (solve (slice3 (Transport_G (kw Hf EE ps))) [1, 0, 0]) of
        Inl e \<Rightarrow> (Inl e, snd (solve (slice3 (Transport_G (kw Hf EE ps))) [1, 0, 0]))
      | Inr V \<Rightarrow> (Inr (Transport_G (kw Hf EE ps), fsub (V ! 2) (V ! 1)),
                  snd (solve (slice3 (Transport_G (kw Hf EE ps))) [1, 0, 0])))"
  by (simp add: Transport_def Let_def case_prod_beta)

text \<open>The sample tables: the matrix that is built, the solve, the result.\<close>

lemma sample_G:
  "Transport_G (sample_transmission Hf EE ps) = [[- 12, 2, 4, 6], [1, - 13, 5, 7], [2, 4, - 14, 8], [3, 5, 7, - 15]]"
  by (simp add: Transport_G_unfold sample_transmission_def binary64_ops)

lemma closed_G:
  "Transport_G (closed_transmission Hf EE ps) = [[0, 0, 0, 0], [0, 0, 0, 0], [0, 0, 0, 0], [0, 0, 0, 0]]"
  by (simp add: Transport_G_unfold closed_transmission_def binary64_ops)

lemma singular_G:
  "Transport_G (singular_table Hf EE ps) = [[- 2, 1, 1, 0], [1, - 2, 1, 0], [3, 1, - 4, 0], [0, 0, 0, 0]]"
  by (simp add: Transport_G_unfold singular_table_def binary64_ops)

lemma rounding_G:
  "Transport_G (rounding_table Hf EE ps) = [[- 2, 1, 1 / 9007199254740992, 1], [1, - 3, 1, 1], [1, 1, - 3, 1], [1, 1, 1, - 3]]"
  by (simp add: Transport_G_unfold rounding_table_def binary64_ops)

lemma sample_lu:
  "lu_solve64 [[- 12, 2, 4], [1, - 13, 5], [2, 4, - 14]] [1, 0, 0] =
     Inr [- (6572821077783967 / 72057594037927936), - (3895005083131239 / 288230376151711744), - (4868756353914049 / 288230376151711744)]"
  by (simp add: lu_solve64_def upt_3 upt_from pivot_row_def swap_def eliminate_def binary64_ops)

lemma doubled_lu:
  "lu_solve64 [[- 24, 4, 8], [2, - 26, 10], [4, 8, - 28]] [1, 0, 0] =
     Inr [- (6572821077783967 / 144115188075855872), - (3895005083131239 / 576460752303423488), - (4868756353914049 / 576460752303423488)]"
  by (simp add: lu_solve64_def upt_3 upt_from pivot_row_def swap_def eliminate_def binary64_ops)

lemma singular_lu:
  "lu_solve64 [[- 2, 1, 1], [1, - 2, 1], [3, 1, - 4]] [1, 0, 0] =
     Inr [- 4503599627370496, - 4503599627370495, - 4503599627370496]"
  by (simp add: lu_solve64_def upt_3 upt_from pivot_row_def swap_def eliminate_def binary64_ops)

lemma rounding_lu:
  "lu_solve64 [[- 2, 1, 1 / 9007199254740992], [1, - 3, 1], [1, 1, - 3]] [1, 0, 0] =
     Inr [- (3002399751580331 / 4503599627370496), - (3002399751580331 / 9007199254740992), - (3002399751580331 / 9007199254740992)]"
  by (simp add: lu_solve64_def upt_3 upt_from pivot_row_def swap_def eliminate_def binary64_ops)

lemma closed_lu:
  "lu_solve64 [[0, 0, 0], [0, 0, 0], [0, 0, 0]] [1, 0, 0] = Inl LinAlgError"
  by (simp add: lu_solve64_def upt_3 upt_from pivot_row_def swap_def)

lemma sample_Transport:
  "Transport sample_transmission (traced lu_solve64) Hf EE ps =
     (Inr ([[- 12, 2, 4, 6], [1, - 13, 5, 7], [2, 4, - 14, 8], [3, 5, 7, - 15]],
           - (486875635391405 / 144115188075855872)),
      [([[- 12, 2, 4], [1, - 13, 5], [2, 4, - 14]], [1, 0, 0])])"
  by (simp add: Transport_unfold sample_G slice3_explicit traced_def sample_lu binary64_ops)

lemma closed_Transport:
  "Transport closed_transmission (traced lu_solve64) Hf EE ps =
     (Inl LinAlgError, [([[0, 0, 0], [0, 0, 0], [0, 0, 0]], [1, 0, 0])])"
  by (simp add: Transport_unfold closed_G slice3_explicit traced_def closed_lu)

lemma singular_Transport:
  "Transport singular_table (traced lu_solve64) Hf EE ps =
     (Inr ([[- 2, 1, 1, 0], [1, - 2, 1, 0], [3, 1, - 4, 0], [0, 0, 0, 0]], - 1),
      [([[- 2, 1, 1], [1, - 2, 1], [3, 1, - 4]], [1, 0, 0])])"
  by (simp add: Transport_unfold singular_G slice3_explicit traced_def singular_lu binary64_ops)

lemma rounding_Transport:
  "Transport rounding_table (traced lu_solve64) Hf EE ps =
     (Inr ([[- 2, 1, 1 / 9007199254740992, 1], [1, - 3, 1, 1], [1, 1, - 3, 1], [1, 1, 1, - 3]], 0),
      [([[- 2, 1, 1 / 9007199254740992], [1, - 3, 1], [1, 1, - 3]], [1, 0, 0])])"
  by (simp add: Transport_unfold rounding_G slice3_explicit traced_def rounding_lu binary64_ops)

text \<open>
  C1. The matrix \<open>G\<close> that \<open>Transport\<close> builds is a 4x4 array whose entry \<open>G[i,j]\<close>,
  for distinct lead indices \<open>i\<close> and \<open>j\<close> below 4, is the transmission from lead \<open>j\<close> to
  lead \<open>i\<close>. Each diagonal entry is minus the running binary64 sum of the other
  entries of its row, added to zero from left to right, so that a row sums to the
  rounding error of its running sum: the exact sum of the off-diagonal entries less
  the running sum. This \<open>G\<close> is the matrix that \<open>Transport\<close> returns, and it returns it
  whenever the solver returns.
\<close>

theorem Transport_conductance_matrix:
  "length (Transport_G (kw Hf EE ps)) = 4
   \<and> (\<forall>i<4. length (Transport_G (kw Hf EE ps) ! i) = 4)
   \<and> (\<forall>i<4. \<forall>j<4. i \<noteq> j \<longrightarrow> Transport_G (kw Hf EE ps) ! i ! j = kw Hf EE ps i j)
   \<and> (\<forall>i<4. Transport_G (kw Hf EE ps) ! i ! i =
          - foldl fadd 0 (map (kw Hf EE ps i) (filter (\<lambda>j. j \<noteq> i) [0..<4])))
   \<and> (\<forall>i<4. sum_list (Transport_G (kw Hf EE ps) ! i) =
          sum_list (map (kw Hf EE ps i) (filter (\<lambda>j. j \<noteq> i) [0..<4]))
          - foldl fadd 0 (map (kw Hf EE ps i) (filter (\<lambda>j. j \<noteq> i) [0..<4])))
   \<and> (\<forall>G Hall. fst (Transport kw solve Hf EE ps) = Inr (G, Hall)
          \<longrightarrow> G = Transport_G (kw Hf EE ps))
   \<and> (\<forall>V. fst (solve (slice3 (Transport_G (kw Hf EE ps))) [1, 0, 0]) = Inr V
          \<longrightarrow> (\<exists>Hall. fst (Transport kw solve Hf EE ps)
                         = Inr (Transport_G (kw Hf EE ps), Hall)))"
proof -
  let ?T = "kw Hf EE ps"
  let ?G = "Transport_G ?T"
  have shape: "length ?G = 4"
    by (simp add: Transport_G_unfold)
  have rows: "length (?G ! i) = 4" if "i < 4" for i
    using lt4_cases [OF that] by (auto simp: Transport_G_unfold)
  have off: "?G ! i ! j = ?T i j" if "i < 4" "j < 4" "i \<noteq> j" for i j
    using lt4_cases [OF that(1)] lt4_cases [OF that(2)] that(3)
    by (auto simp: Transport_G_unfold)
  have diag: "?G ! i ! i = - foldl fadd 0 (map (?T i) (filter (\<lambda>j. j \<noteq> i) [0..<4]))"
    if "i < 4" for i
    using lt4_cases [OF that] by (auto simp: Transport_G_unfold upt_4)
  have rowsum: "sum_list (?G ! i) = sum_list (map (?T i) (filter (\<lambda>j. j \<noteq> i) [0..<4]))
      - foldl fadd 0 (map (?T i) (filter (\<lambda>j. j \<noteq> i) [0..<4]))"
    if "i < 4" for i
    using lt4_cases [OF that] by (auto simp: Transport_G_unfold upt_4)
  have ret: "G = ?G" if "fst (Transport kw solve Hf EE ps) = Inr (G, Hall)" for G Hall
    using that by (simp add: Transport_unfold split: sum.splits)
  have gives: "\<exists>Hall. fst (Transport kw solve Hf EE ps) = Inr (?G, Hall)"
    if "fst (solve (slice3 ?G) [1, 0, 0]) = Inr V" for V
    using that by (simp add: Transport_unfold)
  from shape rows off diag rowsum ret gives show ?thesis by blast
qed

theorem Transport_conductance_matrix_witness:
  "fst (Transport sample_transmission (traced lu_solve64) () 2 ()) =
     Inr (Transport_G (sample_transmission () 2 ()),
          - (486875635391405 / 144115188075855872))
   \<and> Transport_G (sample_transmission () 2 ()) =
       [[- 12, 2, 4, 6], [1, - 13, 5, 7], [2, 4, - 14, 8], [3, 5, 7, - 15]]
   \<and> Transport_G (sample_transmission () 2 ()) ! 2 ! 1 = sample_transmission () 2 () 2 1
   \<and> Transport_G (sample_transmission () 2 ()) ! 2 ! 2 = - fadd (fadd (fadd 0 2) 4) 8
   \<and> sum_list (Transport_G (sample_transmission () 2 ()) ! 2) = 0"
proof -
  let ?G = "Transport_G (sample_transmission () 2 ())"
  note inst = Transport_conductance_matrix [of sample_transmission "()" 2 "()" "traced lu_solve64"]
  have h: "fst (Transport sample_transmission (traced lu_solve64) () 2 ()) =
     Inr (?G, - (486875635391405 / 144115188075855872))"
    by (simp add: sample_Transport sample_G)
  from inst have "\<forall>i<4. \<forall>j<4. i \<noteq> j \<longrightarrow> ?G ! i ! j = sample_transmission () 2 () i j"
    and "\<forall>i<4. ?G ! i ! i =
          - foldl fadd 0 (map (sample_transmission () 2 () i) (filter (\<lambda>j. j \<noteq> i) [0..<4]))"
    by blast+
  then have "?G ! 2 ! 1 = sample_transmission () 2 () 2 1"
    and "?G ! 2 ! 2 = - fadd (fadd (fadd 0 2) 4) 8"
    by (simp_all add: sample_transmission_def upt_4)
  moreover have "sum_list (?G ! 2) = 0"
    by (simp add: sample_G)
  ultimately show ?thesis using h sample_G [of "()" 2 "()"] by blast
qed

text \<open>
  With the transmissions 1, \<open>2^-53\<close> and 1 in row 0 the running sum is 2, the term
  \<open>2^-53\<close> being lost when it is added to 1: \<open>Transport\<close> returns a matrix whose row 0 has
  the diagonal entry -2 and the sum \<open>2^-53\<close>.
\<close>

theorem Transport_conductance_matrix_counterexample:
  "fst (Transport rounding_table (traced lu_solve64) () 2 ()) =
     Inr (Transport_G (rounding_table () 2 ()), 0)
   \<and> Transport_G (rounding_table () 2 ()) ! 0 = [- 2, 1, 1 / 9007199254740992, 1]
   \<and> sum_list (Transport_G (rounding_table () 2 ()) ! 0) = 1 / 9007199254740992"
  by (simp add: rounding_Transport rounding_G)

section \<open>Exact solutions of the reduced system\<close>

lemma det3_explicit:
  "det3 [[a, b, c], [d, e, f], [g, h, i]] =
     a * (e * i - f * h) - b * (d * i - f * g) + c * (d * h - e * g)"
  by (simp add: det3_def eval_nat_numeral)

lemma matvec_explicit:
  "matvec [[a, b, c], [d, e, f], [g, h, i]] [x, y, z] =
     [a * x + b * y + c * z, d * x + e * y + f * z, g * x + h * y + i * z]"
  by (simp add: matvec_def)

lemma list3: "length (V :: 'a list) = 3 \<Longrightarrow> \<exists>x y z. V = [x, y, z]"
  by (auto simp: length_Suc_conv eval_nat_numeral)

lemma kernel_of_rank_one:
  fixes a b c d e f g h i :: real
  assumes r12: "a * e = b * d" "a * f = c * d" "b * f = c * e"
    and r13: "a * h = b * g" "a * i = c * g" "b * i = c * h"
    and r23: "d * h = e * g" "d * i = f * g" "e * i = f * h"
  shows "\<exists>x y z. (x \<noteq> 0 \<or> y \<noteq> 0 \<or> z \<noteq> 0) \<and>
           a * x + b * y + c * z = 0 \<and> d * x + e * y + f * z = 0 \<and> g * x + h * y + i * z = 0"
proof -
  consider "a \<noteq> 0 \<or> b \<noteq> 0" | "a = 0" "b = 0" "c \<noteq> 0"
    | "a = 0" "b = 0" "c = 0" "d \<noteq> 0 \<or> e \<noteq> 0"
    | "a = 0" "b = 0" "c = 0" "d = 0" "e = 0" "f \<noteq> 0"
    | "a = 0" "b = 0" "c = 0" "d = 0" "e = 0" "f = 0" "g \<noteq> 0 \<or> h \<noteq> 0"
    | "a = 0" "b = 0" "c = 0" "d = 0" "e = 0" "f = 0" "g = 0" "h = 0"
    by blast
  then show ?thesis
  proof cases
    case 1
    have "a * b + b * (- a) + c * 0 = 0" "d * b + e * (- a) + f * 0 = 0"
      "g * b + h * (- a) + i * 0 = 0"
      using r12(1) r13(1) by (simp_all add: mult.commute)
    with 1 show ?thesis by (intro exI [of _ b] exI [of _ "- a"] exI [of _ 0]) auto
  next
    case 2
    with r12(2) r13(2) have "d = 0" "g = 0" by simp_all
    with 2 show ?thesis by (intro exI [of _ 1] exI [of _ 0]) simp
  next
    case 3
    have "d * e + e * (- d) + f * 0 = 0" "g * e + h * (- d) + i * 0 = 0"
      using r23(1) by (simp_all add: mult.commute)
    with 3 show ?thesis by (intro exI [of _ e] exI [of _ "- d"] exI [of _ 0]) auto
  next
    case 4
    with r23(2) have "g = 0" by simp
    with 4 show ?thesis by (intro exI [of _ 1] exI [of _ 0]) simp
  next
    case 5
    then show ?thesis by (intro exI [of _ h] exI [of _ "- g"] exI [of _ 0]) auto
  next
    case 6
    then show ?thesis by (intro exI [of _ 1] exI [of _ 0]) simp
  qed
qed

lemma det3_zero_kernel:
  fixes a b c d e f g h i :: real
  assumes "det3 [[a, b, c], [d, e, f], [g, h, i]] = 0"
  shows "\<exists>x y z. (x \<noteq> 0 \<or> y \<noteq> 0 \<or> z \<noteq> 0) \<and>
           matvec [[a, b, c], [d, e, f], [g, h, i]] [x, y, z] = [0, 0, 0]"
proof -
  let ?A = "[[a, b, c], [d, e, f], [g, h, i]]"
  have D: "a * (e * i - f * h) - b * (d * i - f * g) + c * (d * h - e * g) = 0"
    using assms by (simp add: det3_explicit)
  have k1: "matvec ?A [e * i - f * h, f * g - d * i, d * h - e * g] = [0, 0, 0]"
    using D by (simp add: matvec_explicit algebra_simps)
  have k2: "matvec ?A [c * h - b * i, a * i - c * g, b * g - a * h] = [0, 0, 0]"
    using D by (simp add: matvec_explicit algebra_simps)
  have k3: "matvec ?A [b * f - c * e, c * d - a * f, a * e - b * d] = [0, 0, 0]"
    using D by (simp add: matvec_explicit algebra_simps)
  show ?thesis
  proof (cases "(e * i - f * h = 0 \<and> f * g - d * i = 0 \<and> d * h - e * g = 0)
      \<and> (c * h - b * i = 0 \<and> a * i - c * g = 0 \<and> b * g - a * h = 0)
      \<and> (b * f - c * e = 0 \<and> c * d - a * f = 0 \<and> a * e - b * d = 0)")
    case False
    with k1 k2 k3 show ?thesis by blast
  next
    case True
    then have "\<exists>x y z. (x \<noteq> 0 \<or> y \<noteq> 0 \<or> z \<noteq> 0) \<and>
           a * x + b * y + c * z = 0 \<and> d * x + e * y + f * z = 0 \<and> g * x + h * y + i * z = 0"
      by (intro kernel_of_rank_one) simp_all
    then show ?thesis by (simp add: matvec_explicit)
  qed
qed

lemma det3_nonzero_no_kernel:
  fixes a b c d e f g h i :: real
  assumes det: "det3 [[a, b, c], [d, e, f], [g, h, i]] \<noteq> 0"
    and ker: "matvec [[a, b, c], [d, e, f], [g, h, i]] [x, y, z] = [0, 0, 0]"
  shows "x = 0 \<and> y = 0 \<and> z = 0"
proof -
  let ?D = "det3 [[a, b, c], [d, e, f], [g, h, i]]"
  have r1: "a * x + b * y + c * z = 0" and r2: "d * x + e * y + f * z = 0"
    and r3: "g * x + h * y + i * z = 0"
    using ker by (simp_all add: matvec_explicit)
  have "?D * x = (e * i - f * h) * (a * x + b * y + c * z)
      + (c * h - b * i) * (d * x + e * y + f * z) + (b * f - c * e) * (g * x + h * y + i * z)"
    by (simp add: det3_explicit algebra_simps)
  then have "?D * x = 0" by (simp add: r1 r2 r3)
  moreover have "?D * y = (f * g - d * i) * (a * x + b * y + c * z)
      + (a * i - c * g) * (d * x + e * y + f * z) + (c * d - a * f) * (g * x + h * y + i * z)"
    by (simp add: det3_explicit algebra_simps)
  then have "?D * y = 0" by (simp add: r1 r2 r3)
  moreover have "?D * z = (d * h - e * g) * (a * x + b * y + c * z)
      + (b * g - a * h) * (d * x + e * y + f * z) + (a * e - b * d) * (g * x + h * y + i * z)"
    by (simp add: det3_explicit algebra_simps)
  then have "?D * z = 0" by (simp add: r1 r2 r3)
  ultimately show ?thesis using det by simp
qed

lemma singular_iff_det3:
  "singular [[a, b, c], [d, e, f], [g, h, i]] \<longleftrightarrow> det3 [[a, b, c], [d, e, f], [g, h, i]] = 0"
proof
  assume "singular [[a, b, c], [d, e, f], [g, h, i]]"
  then obtain x y z where nz: "x \<noteq> 0 \<or> y \<noteq> 0 \<or> z \<noteq> 0"
    and k: "matvec [[a, b, c], [d, e, f], [g, h, i]] [x, y, z] = [0, 0, 0]"
    unfolding singular_def by blast
  show "det3 [[a, b, c], [d, e, f], [g, h, i]] = 0"
  proof (rule ccontr)
    assume "det3 [[a, b, c], [d, e, f], [g, h, i]] \<noteq> 0"
    from det3_nonzero_no_kernel [OF this k] nz show False by simp
  qed
next
  assume "det3 [[a, b, c], [d, e, f], [g, h, i]] = 0"
  then show "singular [[a, b, c], [d, e, f], [g, h, i]]"
    unfolding singular_def by (rule det3_zero_kernel)
qed

lemma Transport_singular_iff:
  "singular (slice3 (Transport_G T)) \<longleftrightarrow> det3 (slice3 (Transport_G T)) = 0"
proof -
  obtain a b c d e f g h i where "slice3 (Transport_G T) = [[a, b, c], [d, e, f], [g, h, i]]"
    using slice3_shape by blast
  then show ?thesis by (simp add: singular_iff_det3)
qed

section \<open>The Hall voltage\<close>




text \<open>
  C7. \<open>Transport\<close> calls the solver once and has no retry: the trace it returns is the
  trace of the one call on the reduced block and \<open>[1, 0, 0]\<close>, for every solver, and a
  solver that records its calls has recorded this one call. When the call raises,
  \<open>Transport\<close> ends with the same error and yields no Hall value; when it returns,
  \<open>Transport\<close> returns.
\<close>

theorem Transport_single_solve:
  "snd (Transport kw solve Hf EE ps) = snd (solve (slice3 (Transport_G (kw Hf EE ps))) [1, 0, 0])
   \<and> snd (Transport kw (traced f) Hf EE ps) = [(slice3 (Transport_G (kw Hf EE ps)), [1, 0, 0])]
   \<and> (\<forall>e. fst (solve (slice3 (Transport_G (kw Hf EE ps))) [1, 0, 0]) = Inl e
          \<longrightarrow> fst (Transport kw solve Hf EE ps) = Inl e)
   \<and> (\<forall>V. fst (solve (slice3 (Transport_G (kw Hf EE ps))) [1, 0, 0]) = Inr V
          \<longrightarrow> (\<exists>G Hall. fst (Transport kw solve Hf EE ps) = Inr (G, Hall)))"
  by (simp add: Transport_unfold traced_def split: sum.splits)

theorem Transport_single_solve_witness:
  "traced lu_solve64 (slice3 (Transport_G (closed_transmission () 2 ()))) [1, 0, 0]
     = (Inl LinAlgError, [([[0, 0, 0], [0, 0, 0], [0, 0, 0]], [1, 0, 0])])
   \<and> fst (Transport closed_transmission (traced lu_solve64) () 2 ()) = Inl LinAlgError
   \<and> snd (Transport closed_transmission (traced lu_solve64) () 2 ())
       = [([[0, 0, 0], [0, 0, 0], [0, 0, 0]], [1, 0, 0])]
   \<and> fst (Transport sample_transmission (traced lu_solve64) () 2 ())
       = Inr (Transport_G (sample_transmission () 2 ()),
              - (486875635391405 / 144115188075855872))
   \<and> snd (Transport sample_transmission (traced lu_solve64) () 2 ())
       = [([[- 12, 2, 4], [1, - 13, 5], [2, 4, - 14]], [1, 0, 0])]"
proof -
  have c: "traced lu_solve64 (slice3 (Transport_G (closed_transmission () 2 ()))) [1, 0, 0]
     = (Inl LinAlgError, [([[0, 0, 0], [0, 0, 0], [0, 0, 0]], [1, 0, 0])])"
    by (simp add: traced_def closed_G slice3_explicit closed_lu)
  note closed = Transport_single_solve
    [of closed_transmission "traced lu_solve64" "()" 2 "()" lu_solve64]
  from closed have "\<forall>e. fst (traced lu_solve64 (slice3 (Transport_G (closed_transmission () 2 ())))
        [1, 0, 0]) = Inl e
      \<longrightarrow> fst (Transport closed_transmission (traced lu_solve64) () 2 ()) = Inl e"
    and "snd (Transport closed_transmission (traced lu_solve64) () 2 ())
      = snd (traced lu_solve64 (slice3 (Transport_G (closed_transmission () 2 ()))) [1, 0, 0])"
    by blast+
  with c have "fst (Transport closed_transmission (traced lu_solve64) () 2 ()) = Inl LinAlgError"
    and "snd (Transport closed_transmission (traced lu_solve64) () 2 ())
       = [([[0, 0, 0], [0, 0, 0], [0, 0, 0]], [1, 0, 0])]"
    by simp_all
  with c show ?thesis
    by (simp add: sample_Transport sample_G)
qed

text \<open>
  A singular reduced block does not make the call fail. With lead 3 cut off, the
  reduced block sends \<open>[1, 1, 1]\<close> to zero; its factorisation meets no pivot that is
  exactly zero, the last one being \<open>-2^-52\<close>, and \<open>Transport\<close> returns the Hall value -1.
\<close>

theorem Transport_single_solve_counterexample:
  "slice3 (Transport_G (singular_table () 2 ())) = [[- 2, 1, 1], [1, - 2, 1], [3, 1, - 4]]
   \<and> matvec [[- 2, 1, 1], [1, - 2, 1], [3, 1, - 4]] [1, 1, 1] = [0, 0, 0]
   \<and> singular [[- 2, 1, 1], [1, - 2, 1], [3, 1, - 4]]
   \<and> lu_solve64 [[- 2, 1, 1], [1, - 2, 1], [3, 1, - 4]] [1, 0, 0] =
       Inr [- 4503599627370496, - 4503599627370495, - 4503599627370496]
   \<and> Transport singular_table (traced lu_solve64) () 2 () =
       (Inr (Transport_G (singular_table () 2 ()), - 1),
        [([[- 2, 1, 1], [1, - 2, 1], [3, 1, - 4]], [1, 0, 0])])"
proof -
  have "singular [[- 2, 1, 1], [1, - 2, 1], [3, 1, - 4]]"
    by (simp add: singular_iff_det3 det3_explicit)
  then show ?thesis
    by (simp add: singular_G slice3_explicit singular_lu singular_Transport matvec_explicit)
qed

section \<open>The on-site values\<close>







lemma HedgeHog_returns:
  assumes "ps_delta ps \<noteq> 0"
  shows "\<exists>m. HedgeHog site ps = Inr m"
  using assms by (simp add: HedgeHog_def Let_def py_div_def split: prod.splits)

lemma HedgeHog_origin:
  assumes "ps_delta ps \<noteq> 0" and "pos site = (0, 0)"
  shows "HedgeHog site ps = Inr (madd (smul 4 s_0) (smul (ps_Ex ps) s_z))"
  using assms by (simp add: HedgeHog_def Let_def py_div_def)

text \<open>
  C9. With \<^verbatim>\<open>ps.delta\<close> nonzero, \<open>HedgeHog\<close> returns a matrix at every site: no division
  by zero occurs, the quotients \<open>x/r\<close> and \<open>y/r\<close> being formed only when \<open>r\<close> is not
  zero. At the origin the result is \<open>4*s_0 + Ex*s_z\<close>.
\<close>

theorem HedgeHog_total:
  assumes "ps_delta ps \<noteq> 0"
  shows "(\<exists>m. HedgeHog site ps = Inr m)
    \<and> (pos site = (0, 0) \<longrightarrow> HedgeHog site ps = Inr (madd (smul 4 s_0) (smul (ps_Ex ps) s_z)))"
  using assms HedgeHog_returns HedgeHog_origin by blast

theorem HedgeHog_total_witness:
  "ps_delta \<lparr>ps_L = 20, ps_W = 15, ps_delta = 3, ps_r0 = 6, ps_Ex = 1\<rparr> \<noteq> 0
   \<and> pos \<lparr>pos = (0, 0)\<rparr> = (0, 0)
   \<and> HedgeHog \<lparr>pos = (0, 0)\<rparr> \<lparr>ps_L = 20, ps_W = 15, ps_delta = 3, ps_r0 = 6, ps_Ex = 1\<rparr>
        = Inr (Mat2 5 0 0 3)
   \<and> (\<exists>m. HedgeHog \<lparr>pos = (3, 4)\<rparr> \<lparr>ps_L = 20, ps_W = 15, ps_delta = 3, ps_r0 = 6, ps_Ex = 1\<rparr>
          = Inr m)"
proof -
  let ?ps = "\<lparr>ps_L = 20, ps_W = 15, ps_delta = 3, ps_r0 = 6, ps_Ex = 1\<rparr>"
  have d: "ps_delta ?ps \<noteq> 0" by simp
  from HedgeHog_total [of ?ps "\<lparr>pos = (0, 0)\<rparr>", OF d]
  have "HedgeHog \<lparr>pos = (0, 0)\<rparr> ?ps = Inr (madd (smul 4 s_0) (smul (ps_Ex ?ps) s_z))"
    by simp
  then have "HedgeHog \<lparr>pos = (0, 0)\<rparr> ?ps = Inr (Mat2 5 0 0 3)"
    by (simp add: s_0_def s_z_def)
  moreover from HedgeHog_total [of ?ps "\<lparr>pos = (3, 4)\<rparr>", OF d]
  have "\<exists>m. HedgeHog \<lparr>pos = (3, 4)\<rparr> ?ps = Inr m"
    by blast
  ultimately show ?thesis by simp
qed





section \<open>Independence of the sweep points\<close>

lemma angle_sweep_data:
  "snd (angle_sweep kw Hf prm data angles) =
     data @ map (\<lambda>a. kw Hf (p_E prm) (prm\<lparr>p_angle := a\<rparr>) 1 0) angles"
  by (induction angles arbitrary: prm data) (simp_all add: Let_def)

lemma hall_sweep_data:
  assumes "hall_sweep kw solve Hf ps data Es = (ps', data', err)"
  shows "\<exists>vals. data' = data @ vals \<and> length vals \<le> length Es
     \<and> (\<forall>k<length vals. \<exists>G. fst (Transport kw solve Hf 2 (ps\<lparr>ps_delta := Es ! k\<rparr>)) = Inr (G, vals ! k))
     \<and> (err = None \<longrightarrow> length vals = length Es)"
  using assms
proof (induction Es arbitrary: ps data)
  case Nil
  then show ?case by simp
next
  case (Cons EE Es)
  show ?case
  proof (cases "fst (Transport kw solve Hf 2 (ps\<lparr>ps_delta := EE\<rparr>))")
    case (Inl e)
    with Cons.prems have "data' = data" "err = Some e"
      by (simp_all add: Let_def)
    then show ?thesis by simp
  next
    case (Inr res)
    obtain G Hall where res: "res = (G, Hall)"
      by (cases res)
    from Cons.prems Inr res
    have "hall_sweep kw solve Hf (ps\<lparr>ps_delta := EE\<rparr>) (data @ [Hall]) Es = (ps', data', err)"
      by (simp add: Let_def)
    from Cons.IH [OF this] obtain vals where vals: "data' = (data @ [Hall]) @ vals"
      "length vals \<le> length Es"
      "\<forall>k<length vals. \<exists>G. fst (Transport kw solve Hf 2 (ps\<lparr>ps_delta := Es ! k\<rparr>)) = Inr (G, vals ! k)"
      "err = None \<longrightarrow> length vals = length Es"
      by auto
    have "\<exists>G. fst (Transport kw solve Hf 2 (ps\<lparr>ps_delta := (EE # Es) ! k\<rparr>)) = Inr (G, (Hall # vals) ! k)"
      if "k < length (Hall # vals)" for k
    proof (cases k)
      case 0
      then show ?thesis using Inr res by simp
    next
      case (Suc n)
      with that vals(3) show ?thesis by simp
    qed
    with vals(1,2,4) show ?thesis
      by (intro exI [of _ "Hall # vals"]) simp
  qed
qed

lemma hall_sweep_point:
  assumes "k < length (fst (snd (hall_sweep kw solve Hf ps [] Es)))"
  shows "\<exists>G. fst (Transport kw solve Hf 2 (ps\<lparr>ps_delta := Es ! k\<rparr>))
            = Inr (G, fst (snd (hall_sweep kw solve Hf ps [] Es)) ! k)"
proof -
  obtain ps' data' err where run: "hall_sweep kw solve Hf ps [] Es = (ps', data', err)"
    by (cases "hall_sweep kw solve Hf ps [] Es")
  from hall_sweep_data [OF run] assms show ?thesis
    by (auto simp: run)
qed

lemma hall_sweep_complete:
  "snd (snd (hall_sweep kw solve Hf ps data Es)) = None \<Longrightarrow>
     length (fst (snd (hall_sweep kw solve Hf ps data Es))) = length data + length Es"
  by (induction Es arbitrary: ps data) (auto simp: Let_def split: sum.splits)

lemma sample_skyrmion_Transport:
  "ps_delta ps = 1 \<Longrightarrow> fst (Transport sample_skyrmion (traced lu_solve64) Hf EE ps) =
     Inr ([[- 12, 2, 4, 6], [1, - 13, 5, 7], [2, 4, - 14, 8], [3, 5, 7, - 15]],
          - (486875635391405 / 144115188075855872))"
  by (simp add: Transport_unfold Transport_G_unfold sample_skyrmion_def slice3_explicit
      traced_def sample_lu binary64_ops)

lemma sample_skyrmion_doubled:
  "ps_delta ps = 2 \<Longrightarrow> fst (Transport sample_skyrmion (traced lu_solve64) Hf EE ps) =
     Inr ([[- 24, 4, 8, 12], [2, - 26, 10, 14], [4, 8, - 28, 16], [6, 10, 14, - 30]],
          - (486875635391405 / 288230376151711744))"
  by (simp add: Transport_unfold Transport_G_unfold sample_skyrmion_def slice3_explicit
      traced_def doubled_lu binary64_ops)

lemma sample_skyrmion_singular:
  "ps_delta ps = 0 \<Longrightarrow>
     fst (Transport sample_skyrmion (traced lu_solve64) Hf EE ps) = Inl LinAlgError"
  by (simp add: Transport_unfold Transport_G_unfold sample_skyrmion_def slice3_explicit
      traced_def closed_lu binary64_ops)

lemma sample_hall_sweep:
  "hall_sweep sample_skyrmion (traced lu_solve64) () \<lparr>ps_L = 20, ps_W = 15, ps_delta = d, ps_r0 = 6, ps_Ex = 1\<rparr> [] [1, 2, 0, 3]
     = (\<lparr>ps_L = 20, ps_W = 15, ps_delta = 0, ps_r0 = 6, ps_Ex = 1\<rparr>, [- (486875635391405 / 144115188075855872),
         - (486875635391405 / 288230376151711744)],
        Some LinAlgError)"
  by (simp add: sample_skyrmion_Transport sample_skyrmion_doubled sample_skyrmion_singular)

lemma sample_hall_single:
  "hall_sweep sample_skyrmion (traced lu_solve64) () \<lparr>ps_L = 20, ps_W = 15, ps_delta = d, ps_r0 = 6, ps_Ex = 1\<rparr> [] [2]
     = (\<lparr>ps_L = 20, ps_W = 15, ps_delta = 2, ps_r0 = 6, ps_Ex = 1\<rparr>, [- (486875635391405 / 288230376151711744)], None)"
  by (simp add: sample_skyrmion_doubled)

lemma sample_angle_sweep:
  "angle_sweep sample_valve () \<lparr>p_Exc = 1 / 5, p_E = 23 / 10, p_angle = q\<rparr> [] [0, 1]
     = (\<lparr>p_Exc = 1 / 5, p_E = 23 / 10, p_angle = 1\<rparr>, [23 / 10 + 1, 23 / 10 + 1 / 5 + 1])"
  by (simp add: sample_valve_def)

text \<open>
  C8. In the angle sweep every point is recorded, and the value at a point is the
  transmission computed with the parameter object whose angle is that point's angle;
  in the Hall sweep every recorded value is the Hall value that \<open>Transport\<close> returns with
  \<^verbatim>\<open>ps.delta\<close> set to that point's width, and all points are recorded when no call
  raises. Hence two runs of a sweep, over any two lists of points and started with any
  value in the swept attribute of the shared object, record the same value wherever
  their points coincide: reordering the points or running one alone changes no value.
\<close>

theorem sweep_points_independent:
  "length (snd (angle_sweep kw Hf prm [] angles)) = length angles
   \<and> (\<forall>k<length angles.
        snd (angle_sweep kw Hf prm [] angles) ! k = kw Hf (p_E prm) (prm\<lparr>p_angle := angles ! k\<rparr>) 1 0)
   \<and> (\<forall>k<length angles. \<forall>k'<length angles'. angles ! k = angles' ! k' \<longrightarrow>
        snd (angle_sweep kw Hf prm [] angles) ! k
          = snd (angle_sweep kw Hf (prm\<lparr>p_angle := q\<rparr>) [] angles') ! k')
   \<and> (\<forall>k<length (fst (snd (hall_sweep kw' solve Hf' ps [] Es))).
        \<exists>G. fst (Transport kw' solve Hf' 2 (ps\<lparr>ps_delta := Es ! k\<rparr>))
               = Inr (G, fst (snd (hall_sweep kw' solve Hf' ps [] Es)) ! k))
   \<and> (\<forall>k<length (fst (snd (hall_sweep kw' solve Hf' ps [] Es))).
      \<forall>k'<length (fst (snd (hall_sweep kw' solve Hf' (ps\<lparr>ps_delta := d\<rparr>) [] Es'))).
        Es ! k = Es' ! k' \<longrightarrow>
        fst (snd (hall_sweep kw' solve Hf' ps [] Es)) ! k
          = fst (snd (hall_sweep kw' solve Hf' (ps\<lparr>ps_delta := d\<rparr>) [] Es')) ! k')
   \<and> (snd (snd (hall_sweep kw' solve Hf' ps [] Es)) = None \<longrightarrow>
        length (fst (snd (hall_sweep kw' solve Hf' ps [] Es))) = length Es)"
proof -
  have hall: "fst (snd (hall_sweep kw' solve Hf' ps [] Es)) ! k
          = fst (snd (hall_sweep kw' solve Hf' (ps\<lparr>ps_delta := d\<rparr>) [] Es')) ! k'"
    if "k < length (fst (snd (hall_sweep kw' solve Hf' ps [] Es)))"
      and "k' < length (fst (snd (hall_sweep kw' solve Hf' (ps\<lparr>ps_delta := d\<rparr>) [] Es')))"
      and "Es ! k = Es' ! k'" for k k'
    using hall_sweep_point [OF that(1)] hall_sweep_point [OF that(2)] that(3)
    by auto
  show ?thesis
    using hall hall_sweep_point [of _ kw' solve Hf' ps Es] hall_sweep_complete [of kw' solve Hf' ps "[]" Es]
    by (simp add: angle_sweep_data)
qed

theorem sweep_points_independent_witness:
  "snd (angle_sweep sample_valve () \<lparr>p_Exc = 1 / 5, p_E = 23 / 10, p_angle = 7\<rparr> [] [0, 1]) ! 1
     = snd (angle_sweep sample_valve () \<lparr>p_Exc = 1 / 5, p_E = 23 / 10, p_angle = 5\<rparr> [] [1, 0]) ! 0
   \<and> fst (snd (hall_sweep sample_skyrmion (traced lu_solve64) ()
          \<lparr>ps_L = 20, ps_W = 15, ps_delta = 3, ps_r0 = 6, ps_Ex = 1\<rparr> [] [1, 2, 0, 3])) ! 1
     = fst (snd (hall_sweep sample_skyrmion (traced lu_solve64) ()
          \<lparr>ps_L = 20, ps_W = 15, ps_delta = 9, ps_r0 = 6, ps_Ex = 1\<rparr> [] [2])) ! 0
   \<and> hall_sweep sample_skyrmion (traced lu_solve64) ()
          \<lparr>ps_L = 20, ps_W = 15, ps_delta = 3, ps_r0 = 6, ps_Ex = 1\<rparr> [] [1, 2, 0, 3]
     = (\<lparr>ps_L = 20, ps_W = 15, ps_delta = 0, ps_r0 = 6, ps_Ex = 1\<rparr>, [- (486875635391405 / 144115188075855872),
         - (486875635391405 / 288230376151711744)],
        Some LinAlgError)"
proof -
  let ?prm = "\<lparr>p_Exc = 1 / 5, p_E = 23 / 10, p_angle = 7\<rparr>"
  let ?ps = "\<lparr>ps_L = 20, ps_W = 15, ps_delta = 3, ps_r0 = 6, ps_Ex = 1\<rparr>"
  note inst = sweep_points_independent [where kw = sample_valve and Hf = "()" and prm = ?prm
      and angles = "[0, 1]" and angles' = "[1, 0]" and q = 5 and kw' = sample_skyrmion
      and solve = "traced lu_solve64" and Hf' = "()" and ps = ?ps and Es = "[1, 2, 0, 3]"
      and d = 9 and Es' = "[2]"]
  from inst have "\<forall>k<length [0, 1 :: real]. \<forall>k'<length [1, 0 :: real].
      [0, 1 :: real] ! k = [1, 0] ! k' \<longrightarrow>
        snd (angle_sweep sample_valve () ?prm [] [0, 1]) ! k
          = snd (angle_sweep sample_valve () (?prm\<lparr>p_angle := 5\<rparr>) [] [1, 0]) ! k'"
    by blast
  then have a: "snd (angle_sweep sample_valve () ?prm [] [0, 1]) ! 1
          = snd (angle_sweep sample_valve () (?prm\<lparr>p_angle := 5\<rparr>) [] [1, 0]) ! 0"
    by simp
  from inst have "\<forall>k<length (fst (snd (hall_sweep sample_skyrmion (traced lu_solve64) () ?ps [] [1, 2, 0, 3]))).
      \<forall>k'<length (fst (snd (hall_sweep sample_skyrmion (traced lu_solve64) () (?ps\<lparr>ps_delta := 9\<rparr>) [] [2]))).
        [1, 2, 0, 3 :: real] ! k = [2] ! k' \<longrightarrow>
        fst (snd (hall_sweep sample_skyrmion (traced lu_solve64) () ?ps [] [1, 2, 0, 3])) ! k
          = fst (snd (hall_sweep sample_skyrmion (traced lu_solve64) () (?ps\<lparr>ps_delta := 9\<rparr>) [] [2])) ! k'"
    by blast
  then have h: "fst (snd (hall_sweep sample_skyrmion (traced lu_solve64) () ?ps [] [1, 2, 0, 3])) ! 1
          = fst (snd (hall_sweep sample_skyrmion (traced lu_solve64) () (?ps\<lparr>ps_delta := 9\<rparr>) [] [2])) ! 0"
    by (simp del: hall_sweep.simps add: sample_hall_sweep sample_hall_single)
  from a h show ?thesis
    by (simp del: hall_sweep.simps add: sample_hall_sweep)
qed

section \<open>What the notebooks fix of the solver's input\<close>

text \<open>
  The transmissions are the library's. The notebooks fix the site values it reads and
  what \<open>Transport\<close> does with its table. Without exchange (\<^verbatim>\<open>ps.Ex = 0\<close>) both value
  functions of the skyrmion system return \<open>4*s_0\<close>.
\<close>

lemma HedgeHog_without_exchange:
  assumes "ps_Ex ps = 0" and "ps_delta ps \<noteq> 0"
  shows "HedgeHog site ps = Inr (smul 4 s_0)"
  using assms
  by (simp add: HedgeHog_def Let_def py_div_def s_0_def s_x_def s_y_def s_z_def split: prod.splits)

lemma Lead_Pot_without_exchange:
  assumes "ps_Ex ps = 0"
  shows "Lead_Pot site ps = smul 4 s_0"
  using assms by (simp add: Lead_Pot_def s_0_def s_z_def)

text \<open>
  A table that does not change when leads 1 and 2 are exchanged gives the Hall value
  zero, when the reduced matrix is not singular and the solver returns the solution of
  the reduced system: rows 1 and 2 of the matrix are then each other's mirror image,
  their diagonal entries being the same running sum.
\<close>

lemma Transport_mirror_hall:
  assumes sym: "\<And>i j. i < 4 \<Longrightarrow> j < 4 \<Longrightarrow> kw Hf EE ps (swap12 i) (swap12 j) = kw Hf EE ps i j"
    and ns: "\<not> singular (slice3 (Transport_G (kw Hf EE ps)))"
    and sol: "fst (solve (slice3 (Transport_G (kw Hf EE ps))) [1, 0, 0]) = Inr V"
    and len: "length V = 3"
    and exact: "matvec (slice3 (Transport_G (kw Hf EE ps))) V = [1, 0, 0]"
  shows "fst (Transport kw solve Hf EE ps) = Inr (Transport_G (kw Hf EE ps), 0)"
proof -
  let ?T = "kw Hf EE ps"
  define a b c where "a = ?T 1 0" and "b = ?T 0 1" and "c = ?T 1 2"
  have e: "?T 0 1 = b" "?T 0 2 = b" "?T 1 0 = a" "?T 2 0 = a" "?T 1 2 = c" "?T 2 1 = c"
    "?T 2 3 = ?T 1 3"
    using sym [of 0 1] sym [of 1 0] sym [of 1 2] sym [of 1 3]
    by (simp_all add: swap12_def a_def b_def c_def)
  define p where "p = - fadd (fadd (fadd 0 b) b) (?T 0 3)"
  define d where "d = - fadd (fadd (fadd 0 a) c) (?T 1 3)"
  have A: "slice3 (Transport_G ?T) = [[p, b, b], [a, d, c], [a, c, d]]"
    by (simp only: Transport_G_unfold slice3_explicit e p_def d_def)
  obtain x y z where V: "V = [x, y, z]"
    using list3 [OF len] by blast
  from exact have eqs: "a * x + d * y + c * z = 0" "a * x + c * y + d * z = 0"
    by (simp_all add: A V matvec_explicit)
  have "y = z"
  proof (rule ccontr)
    assume neq: "y \<noteq> z"
    have "matvec (slice3 (Transport_G ?T)) [0, y - z, z - y] = [0, 0, 0]"
      using eqs by (simp add: A matvec_explicit algebra_simps)
    with neq have "singular (slice3 (Transport_G ?T))"
      unfolding singular_def
      by (intro exI [of _ 0] exI [of _ "y - z"] exI [of _ "z - y"]) simp
    with ns show False by simp
  qed
  then show ?thesis
    by (simp add: Transport_unfold sol V fsub_def round64_zero)
qed

text \<open>
  The energy sweep of the wire plots, for each energy, the two numbers the library
  returns for the lead pairs (1, 0) and (0, 0), unchanged.
\<close>

lemma plot_transmission_loop_lists:
  "plot_transmission_loop kw syst transs refls energies =
     (transs @ map (\<lambda>energy. kw syst energy 1 0) energies,
      refls @ map (\<lambda>energy. kw syst energy 0 0) energies)"
  by (induction energies arbitrary: transs refls) (simp_all add: Let_def)

lemma plot_transmission_lists:
  "plot_transmission kw syst energies =
     (map (\<lambda>energy. kw syst energy 1 0) energies, map (\<lambda>energy. kw syst energy 0 0) energies)"
  by (simp add: plot_transmission_def plot_transmission_loop_lists)

text \<open>
  The site values of the spin valve repeat when the angle grows by \<open>2\<pi>\<close>. Replacing the
  angle \<open>a\<close> by \<open>2\<pi> - a\<close> changes them: it turns them into their conjugates by \<open>s_z\<close>, a
  rotation of the spin axes by a half turn about \<open>z\<close>.
\<close>

lemma onsite_angle_period:
  "onsite site (p\<lparr>p_angle := a + 2 * pi\<rparr>) = onsite site (p\<lparr>p_angle := a\<rparr>)"
  by (simp add: onsite_def Let_def)

lemma onsite_angle_mirror:
  "onsite site (p\<lparr>p_angle := 2 * pi - a\<rparr>) = mmul s_z (mmul (onsite site (p\<lparr>p_angle := a\<rparr>)) s_z)"
  by (simp add: onsite_def Let_def s_0_def s_x_def s_z_def cos_diff sin_diff)

lemma onsite_angle_mirror_differs:
  "onsite \<lparr>pos = (35, 0)\<rparr> \<lparr>p_Exc = 1, p_E = 2, p_angle = 3 * pi / 2\<rparr> = Mat2 4 (- 1) (- 1) 4
   \<and> onsite \<lparr>pos = (35, 0)\<rparr> \<lparr>p_Exc = 1, p_E = 2, p_angle = pi / 2\<rparr> = Mat2 4 1 1 4"
proof -
  have "sin (3 * pi / 2) = - 1" "cos (3 * pi / 2) = 0"
    using sin_3over2_pi cos_3over2_pi by simp_all
  then show ?thesis
    by (simp add: onsite_def Let_def W_def s_0_def s_x_def s_z_def)
qed

end
